theory Spec2Isabelle
  imports Complex_Main "HOL-Library.Multiset"
begin

section \<open>Data model of the particle integrators (integrators\_particle.c)\<close>

text \<open>
  The C type \<^verbatim>\<open>Real\<close> is a double; it is idealised here as a HOL \<^typ>\<open>real\<close>, so
  every formula below is the exact-arithmetic reading of the C expression.
  Field names follow the source. \<^verbatim>\<open>Vector\<close> and \<^verbatim>\<open>Grain\<close> both have fields
  x1, x2, x3, hence the qualified names \<open>Vector.x1\<close> and \<open>Grain.x1\<close>.
\<close>

record Vector =
  x1 :: real
  x2 :: real
  x3 :: real

text \<open>
  A grain: position, velocity, species index, status tag and the FARGO shift
  (the field \<^verbatim>\<open>shift\<close> exists in the C struct only under FARGO; it is written only
  there). Any further field of the C struct lives in the record extension.
\<close>

record Grain =
  x1 :: real
  x2 :: real
  x3 :: real
  v1 :: real
  v2 :: real
  v3 :: real
  property :: int
  pos :: int
  shift :: real

record Grain_Property =
  m :: real
  num :: int

text \<open>
  The integrator's view of the Grid. \<^verbatim>\<open>particle\<close> is the allocated array,
  \<^verbatim>\<open>nparticle\<close> its logical length (a C long that only counts; a natural number
  here). \<^verbatim>\<open>grproperty\<close> is the species table, read and written by index.
\<close>

record ('g, 'p) Grid =
  Nx1 :: int
  Nx2 :: int
  Nx3 :: int
  dx1 :: real
  dx2 :: real
  dx3 :: real
  dt :: real
  my_id :: int
  nparticle :: nat
  particle :: "'g Grain_scheme list"
  grproperty :: "int \<Rightarrow> 'p Grain_Property_scheme"

text \<open>
  The build flags (\<^verbatim>\<open>#ifdef\<close>) and the globals of globals.h that the file reads:
  the orbital frequency and the bounds of the live region.
\<close>

record Config =
  SHEARING_BOX :: bool
  FARGO :: bool
  VERTICAL_GRAVITY :: bool
  FEEDBACK :: bool
  Omega :: real
  x1lpar :: real
  x1upar :: real
  x2lpar :: real
  x2upar :: real
  x3lpar :: real
  x3upar :: real

text \<open>
  Modelled from the spec: the collaborators of utils\_particle.c are not part of the
  sources at hand (section 6 of the specification lists them as external interfaces, and
  section 5 says the gas grid is read-only for the integrator). They are parameters:
  \<^verbatim>\<open>getweight\<close> yields the stencil (weights and origin cell, type \<open>'w\<close>),
  \<^verbatim>\<open>getvalues\<close> the status (0: in the grid) with density, gas velocity and sound speed,
  \<^verbatim>\<open>gasvshift\<close> the corrected gas velocity, \<^verbatim>\<open>get_ts\<close> the stopping time.
\<close>

record 'w Env =
  getweight :: "real \<Rightarrow> real \<Rightarrow> real \<Rightarrow> Vector \<Rightarrow> 'w"
  getvalues :: "'w \<Rightarrow> int \<times> real \<times> real \<times> real \<times> real \<times> real"
  gasvshift :: "real \<Rightarrow> real \<Rightarrow> real \<Rightarrow> real \<times> real \<times> real \<Rightarrow> real \<times> real \<times> real"
  get_ts :: "int \<Rightarrow> real \<Rightarrow> real \<Rightarrow> real \<Rightarrow> real"

text \<open>
  Modelled from the spec: the collaborators with an effect outside the grain array
  (logging, clearing the feedback buffer, depositing onto a stencil) are recorded as
  events, in call order.
\<close>

datatype 'w event =
    Ath_perr int int
  | Ath_pout int int nat
  | Feedback_clear
  | DistrFB 'w Vector
  | DistrFB_shear 'w Vector

text \<open>The macro \<^verbatim>\<open>SQR\<close> of defs.h.\<close>

definition SQR :: "real \<Rightarrow> real" where
  "SQR a = a * a"

section \<open>Ghost purge\<close>

text \<open>
  \<^verbatim>\<open>Delete_Ghost\<close>: scan from index 0; a grain with \<^verbatim>\<open>pos == 0\<close> is overwritten by the
  last one, after \<^verbatim>\<open>nparticle\<close> and the species counter have been decremented, and
  the slot is tested again. \<open>Delete_Ghost_swap\<close> is the body of that branch: the three
  assignments, each reading the state the previous one left (the species index is read
  through \<^verbatim>\<open>gr\<close> before the slot is overwritten).
\<close>

definition Delete_Ghost_swap :: "nat \<Rightarrow> ('g, 'p, 'a) Grid_scheme \<Rightarrow> ('g, 'p, 'a) Grid_scheme" where
  "Delete_Ghost_swap p pG =
     pG\<lparr>nparticle := nparticle pG - 1,
        grproperty := (grproperty pG)
          (property (particle pG ! p) :=
             (grproperty pG (property (particle pG ! p)))
               \<lparr>num := num (grproperty pG (property (particle pG ! p))) - 1\<rparr>),
        particle := (particle pG)[p := particle pG ! (nparticle pG - 1)]\<rparr>"

function Delete_Ghost_loop :: "nat \<Rightarrow> ('g, 'p, 'a) Grid_scheme \<Rightarrow> ('g, 'p, 'a) Grid_scheme" where
  "Delete_Ghost_loop p pG =
     (if p < nparticle pG then
        (if pos (particle pG ! p) = 0 then Delete_Ghost_loop p (Delete_Ghost_swap p pG)
         else Delete_Ghost_loop (p + 1) pG)
      else pG)"
  by pat_completeness auto
termination
  by (relation "measure (\<lambda>(p, pG). nparticle pG - p)") (auto simp: Delete_Ghost_swap_def)

declare Delete_Ghost_loop.simps [simp del]

definition Delete_Ghost :: "('g, 'p, 'a) Grid_scheme \<Rightarrow> ('g, 'p, 'a) Grid_scheme" where
  "Delete_Ghost pG = Delete_Ghost_loop 0 pG"

text \<open>
  The array is used up to \<^verbatim>\<open>nparticle\<close>; a well-formed grid keeps that within the
  allocated array.
\<close>

definition grid_wf :: "('g, 'p, 'a) Grid_scheme \<Rightarrow> bool" where
  "grid_wf pG \<longleftrightarrow> nparticle pG \<le> length (particle pG)"

section \<open>Force and drag models\<close>

text \<open>
  \<^verbatim>\<open>Get_Force\<close>: the forces other than gas drag. The vector starts at zero and the
  shearing-box terms are added to it, so each component below is the sum the C code
  accumulates.
\<close>

definition Get_Force ::
  "Config \<Rightarrow> ('g, 'p, 'a) Grid_scheme \<Rightarrow> real \<Rightarrow> real \<Rightarrow> real \<Rightarrow> real \<Rightarrow> real \<Rightarrow> real \<Rightarrow> Vector" where
  "Get_Force cfg pG px1 px2 px3 pv1 pv2 pv3 =
     (if SHEARING_BOX cfg then
        (let omg2 = SQR (Omega cfg) in
         if Nx3 pG > 1 then
           \<lparr>Vector.x1 = (if FARGO cfg then 2.0 * pv2 * Omega cfg
                         else 3.0 * omg2 * px1 + 2.0 * pv2 * Omega cfg),
            x2 = (if FARGO cfg then - 0.5 * pv1 * Omega cfg else - 2.0 * pv1 * Omega cfg),
            x3 = (if VERTICAL_GRAVITY cfg then - omg2 * px3 else 0.0)\<rparr>
         else
           \<lparr>Vector.x1 = 3.0 * omg2 * px1 + 2.0 * pv3 * Omega cfg,
            x2 = (if VERTICAL_GRAVITY cfg then - omg2 * px2 else 0.0),
            x3 = - 2.0 * pv1 * Omega cfg\<rparr>)
      else \<lparr>Vector.x1 = 0.0, x2 = 0.0, x3 = 0.0\<rparr>)"

text \<open>
  \<^verbatim>\<open>Get_Drag\<close>: returns the drag force, the value stored through \<^verbatim>\<open>tstop1\<close> and the
  messages it logs. Out of the grid the velocity difference and 1/tstop are set to zero
  and \<^verbatim>\<open>ath_perr\<close> is called at level 1; the function then goes on as in the grid.
\<close>

definition Get_Drag ::
  "'w Env \<Rightarrow> ('g, 'p, 'a) Grid_scheme \<Rightarrow> int \<Rightarrow> real \<Rightarrow> real \<Rightarrow> real \<Rightarrow> real \<Rightarrow> real \<Rightarrow> real \<Rightarrow> Vector
     \<Rightarrow> Vector \<times> real \<times> 'w event list" where
  "Get_Drag env pG type px1 px2 px3 pv1 pv2 pv3 cell1 =
     (case getvalues env (getweight env px1 px2 px3 cell1) of
        (status, rho, u1, u2, u3, cs) \<Rightarrow>
          (case (if status = 0 then
                   (case gasvshift env px1 px2 px3 (u1, u2, u3) of
                      (w1, w2, w3) \<Rightarrow>
                        (let vd1 = pv1 - w1; vd2 = pv2 - w2; vd3 = pv3 - w3;
                             vd = sqrt (SQR vd1 + SQR vd2 + SQR vd3);
                             tstop = get_ts env type rho cs vd
                         in (vd1, vd2, vd3, 1.0 / tstop, [])))
                 else (0.0, 0.0, 0.0, 0.0, [Ath_perr 1 (my_id pG)])) of
             (vd1, vd2, vd3, ts1, evs) \<Rightarrow>
               (\<lparr>Vector.x1 = - ts1 * vd1, x2 = - ts1 * vd2, x3 = - ts1 * vd3\<rparr>, ts1, evs)))"

section \<open>Feedback (corrector step)\<close>

text \<open>
  \<^verbatim>\<open>feedback_corrector\<close>: the force other than drag at the midpoint of the old and new
  grain, the momentum m (dv - dt f), and its distribution: one call of \<^verbatim>\<open>distrFB\<close> and,
  in the 3D shearing box without FARGO, one of \<^verbatim>\<open>distrFB_shear\<close> with the same stencil
  and vector.
\<close>

definition feedback_corrector ::
  "Config \<Rightarrow> 'w Env \<Rightarrow> ('g, 'p, 'a) Grid_scheme \<Rightarrow> 'g Grain_scheme \<Rightarrow> 'h Grain_scheme \<Rightarrow> Vector
     \<Rightarrow> real \<Rightarrow> real \<Rightarrow> real \<Rightarrow> 'w event list" where
  "feedback_corrector cfg env pG gri grf cell1 dv1 dv2 dv3 =
     (let mgr = m (grproperty pG (property gri));
          mx1 = 0.5 * (Grain.x1 gri + Grain.x1 grf);
          mx2 = 0.5 * (Grain.x2 gri + Grain.x2 grf);
          mx3 = 0.5 * (Grain.x3 gri + Grain.x3 grf);
          mv1 = 0.5 * (v1 gri + v1 grf);
          mv2 = 0.5 * (v2 gri + v2 grf);
          mv3 = 0.5 * (v3 gri + v3 grf);
          fr = Get_Force cfg pG mx1 mx2 mx3 mv1 mv2 mv3;
          fb = \<lparr>Vector.x1 = mgr * (dv1 - dt pG * Vector.x1 fr),
                x2 = mgr * (dv2 - dt pG * Vector.x2 fr),
                x3 = mgr * (dv3 - dt pG * Vector.x3 fr)\<rparr>;
          weight = getweight env mx1 mx2 mx3 cell1
      in DistrFB weight fb #
         (if SHEARING_BOX cfg \<and> \<not> FARGO cfg \<and> Nx3 pG > 1 then [DistrFB_shear weight fb] else []))"

section \<open>The per-grain steps\<close>

text \<open>\<^verbatim>\<open>cell1\<close>: one over the cell sizes, zero on a collapsed axis.\<close>

definition cell1_of :: "('g, 'p, 'a) Grid_scheme \<Rightarrow> Vector" where
  "cell1_of pG =
     \<lparr>Vector.x1 = (if Nx1 pG > 1 then 1.0 / dx1 pG else 0.0),
      x2 = (if Nx2 pG > 1 then 1.0 / dx2 pG else 0.0),
      x3 = (if Nx3 pG > 1 then 1.0 / dx3 pG else 0.0)\<rparr>"

text \<open>
  Step 1 of the explicit and of the semi-implicit integrator: the position after half
  a time step, with the advection part in the 3D shearing box without FARGO.
\<close>

definition predictor_half ::
  "Config \<Rightarrow> ('g, 'p, 'a) Grid_scheme \<Rightarrow> 'g Grain_scheme \<Rightarrow> real \<times> real \<times> real" where
  "predictor_half cfg pG curG =
     (let x1n = (if Nx1 pG > 1 then Grain.x1 curG + 0.5 * v1 curG * dt pG else Grain.x1 curG);
          x2n = (if Nx2 pG > 1 then Grain.x2 curG + 0.5 * v2 curG * dt pG else Grain.x2 curG);
          x3n = (if Nx3 pG > 1 then Grain.x3 curG + 0.5 * v3 curG * dt pG else Grain.x3 curG)
      in (x1n,
          (if SHEARING_BOX cfg \<and> \<not> FARGO cfg \<and> Nx3 pG > 1
           then x2n - 0.1875 * v1 curG * SQR (dt pG) else x2n),
          x3n))"

text \<open>Step 1 of the fully implicit integrator: the position after one time step.\<close>

definition predictor_full ::
  "Config \<Rightarrow> ('g, 'p, 'a) Grid_scheme \<Rightarrow> 'g Grain_scheme \<Rightarrow> real \<times> real \<times> real" where
  "predictor_full cfg pG curG =
     (let x1n = (if Nx1 pG > 1 then Grain.x1 curG + v1 curG * dt pG else Grain.x1 curG);
          x2n = (if Nx2 pG > 1 then Grain.x2 curG + v2 curG * dt pG else Grain.x2 curG);
          x3n = (if Nx3 pG > 1 then Grain.x3 curG + v3 curG * dt pG else Grain.x3 curG)
      in (x1n,
          (if SHEARING_BOX cfg \<and> \<not> FARGO cfg \<and> Nx3 pG > 1
           then x2n - 0.75 * v1 curG * SQR (dt pG) else x2n),
          x3n))"

text \<open>
  Steps 2 to 4 of \<^verbatim>\<open>integrate_particle_exp\<close>: force at the current state, half kick,
  force at the predicted state, velocity update.
\<close>

definition exp_dv ::
  "Config \<Rightarrow> 'w Env \<Rightarrow> ('g, 'p, 'a) Grid_scheme \<Rightarrow> Vector \<Rightarrow> 'g Grain_scheme
     \<Rightarrow> (real \<times> real \<times> real) \<times> 'w event list" where
  "exp_dv cfg env pG cell1 curG =
     (case predictor_half cfg pG curG of
        (x1n, x2n, x3n) \<Rightarrow>
     (case Get_Drag env pG (property curG) (Grain.x1 curG) (Grain.x2 curG) (Grain.x3 curG)
             (v1 curG) (v2 curG) (v3 curG) cell1 of
        (fd, ts1, ev1) \<Rightarrow>
     (let fr = Get_Force cfg pG (Grain.x1 curG) (Grain.x2 curG) (Grain.x3 curG)
                 (v1 curG) (v2 curG) (v3 curG);
          v1n = v1 curG + 0.5 * (Vector.x1 fd + Vector.x1 fr) * dt pG;
          v2n = v2 curG + 0.5 * (Vector.x2 fd + Vector.x2 fr) * dt pG;
          v3n = v3 curG + 0.5 * (Vector.x3 fd + Vector.x3 fr) * dt pG
      in (case Get_Drag env pG (property curG) x1n x2n x3n v1n v2n v3n cell1 of
            (fd', ts1', ev2) \<Rightarrow>
         (let fr' = Get_Force cfg pG x1n x2n x3n v1n v2n v3n
          in (((Vector.x1 fd' + Vector.x1 fr') * dt pG,
               (Vector.x2 fd' + Vector.x2 fr') * dt pG,
               (Vector.x3 fd' + Vector.x3 fr') * dt pG), ev1 @ ev2))))))"

text \<open>
  Steps 2 to 4 of \<^verbatim>\<open>integrate_particle_semimp\<close>. The locals \<^verbatim>\<open>oh\<close> and \<^verbatim>\<open>b1\<close> exist
  only in the shearing box and are used only there.
\<close>

definition semimp_dv ::
  "Config \<Rightarrow> 'w Env \<Rightarrow> ('g, 'p, 'a) Grid_scheme \<Rightarrow> Vector \<Rightarrow> 'g Grain_scheme
     \<Rightarrow> (real \<times> real \<times> real) \<times> 'w event list" where
  "semimp_dv cfg env pG cell1 curG =
     (case predictor_half cfg pG curG of
        (x1n, x2n, x3n) \<Rightarrow>
     (case Get_Drag env pG (property curG) x1n x2n x3n (v1 curG) (v2 curG) (v3 curG) cell1 of
        (fd, ts1, ev) \<Rightarrow>
     (let fr = Get_Force cfg pG x1n x2n x3n (v1 curG) (v2 curG) (v3 curG);
          ft1 = Vector.x1 fd + Vector.x1 fr;
          ft2 = Vector.x2 fd + Vector.x2 fr;
          ft3 = Vector.x3 fd + Vector.x3 fr;
          b = dt pG * ts1 + 2.0;
          oh = Omega cfg * dt pG;
          b1 = (if FARGO cfg then 1.0 / (SQR b + SQR oh) else 1.0 / (SQR b + 4.0 * SQR oh));
          b2 = (if SHEARING_BOX cfg then b * b1 else 1.0 / b)
      in ((if SHEARING_BOX cfg then
             (if Nx3 pG > 1 then
                (dt pG * 2.0 * b2 * ft1 + dt pG * 4.0 * oh * b1 * ft2,
                 dt pG * 2.0 * b2 * ft2
                   - (if FARGO cfg then dt pG * oh * b1 * ft1 else 4.0 * dt pG * oh * b1 * ft1),
                 dt pG * 2.0 * ft3 / b)
              else
                (dt pG * 2.0 * b2 * ft1 + dt pG * 4.0 * oh * b1 * ft3,
                 dt pG * 2.0 * ft2 / b,
                 dt pG * 2.0 * b2 * ft3 - 4.0 * dt pG * oh * b1 * ft1))
           else
             (dt pG * 2.0 * b2 * ft1, dt pG * 2.0 * b2 * ft2, dt pG * 2.0 * b2 * ft3)),
          ev))))"

text \<open>
  Steps 1 to 3 of \<^verbatim>\<open>integrate_particle_fulimp\<close>: the force \<^verbatim>\<open>fc\<close> at the current and
  \<^verbatim>\<open>fp\<close> at the predicted position (both with the current velocity), with the two
  values \<^verbatim>\<open>ts11\<close> and \<^verbatim>\<open>ts12\<close> of 1/stopping time that \<^verbatim>\<open>Get_Drag\<close> stores.
  (The local \<^verbatim>\<open>yshift_frac\<close> of the C function is computed and never read; it is left out.)
\<close>

definition fulimp_forces ::
  "Config \<Rightarrow> 'w Env \<Rightarrow> ('g, 'p, 'a) Grid_scheme \<Rightarrow> Vector \<Rightarrow> 'g Grain_scheme
     \<Rightarrow> Vector \<times> real \<times> Vector \<times> real \<times> 'w event list" where
  "fulimp_forces cfg env pG cell1 curG =
     (case predictor_full cfg pG curG of
        (x1n, x2n, x3n) \<Rightarrow>
     (case Get_Drag env pG (property curG) (Grain.x1 curG) (Grain.x2 curG) (Grain.x3 curG)
             (v1 curG) (v2 curG) (v3 curG) cell1 of
        (fd, ts11, ev1) \<Rightarrow>
     (case Get_Drag env pG (property curG) x1n x2n x3n (v1 curG) (v2 curG) (v3 curG) cell1 of
        (fd', ts12, ev2) \<Rightarrow>
     (let fr = Get_Force cfg pG (Grain.x1 curG) (Grain.x2 curG) (Grain.x3 curG)
                 (v1 curG) (v2 curG) (v3 curG);
          fr' = Get_Force cfg pG x1n x2n x3n (v1 curG) (v2 curG) (v3 curG)
      in (\<lparr>Vector.x1 = Vector.x1 fd + Vector.x1 fr,
            x2 = Vector.x2 fd + Vector.x2 fr,
            x3 = Vector.x3 fd + Vector.x3 fr\<rparr>,
          ts11,
          \<lparr>Vector.x1 = Vector.x1 fd' + Vector.x1 fr',
            x2 = Vector.x2 fd' + Vector.x2 fr',
            x3 = Vector.x3 fd' + Vector.x3 fr'\<rparr>,
          ts12,
          ev1 @ ev2)))))"

text \<open>
  Step 4, first half: the total force \<^verbatim>\<open>ft\<close> with, in the shearing box, the Coriolis
  terms of the predictor force.
\<close>

definition fulimp_total_force ::
  "Config \<Rightarrow> ('g, 'p, 'a) Grid_scheme \<Rightarrow> Vector \<Rightarrow> Vector \<Rightarrow> real \<Rightarrow> Vector" where
  "fulimp_total_force cfg pG fc fp ts11 =
     (let b0 = 1.0 + dt pG * ts11;
          ft1 = 0.5 * (Vector.x1 fc + b0 * Vector.x1 fp);
          ft2 = 0.5 * (Vector.x2 fc + b0 * Vector.x2 fp);
          ft3 = 0.5 * (Vector.x3 fc + b0 * Vector.x3 fp);
          oh = Omega cfg * dt pG
      in (if SHEARING_BOX cfg then
            (if Nx3 pG > 1 then
               \<lparr>Vector.x1 = ft1 + - oh * Vector.x2 fp,
                x2 = (if FARGO cfg then ft2 + 0.25 * oh * Vector.x1 fp
                      else ft2 + oh * Vector.x1 fp),
                x3 = ft3\<rparr>
             else
               \<lparr>Vector.x1 = ft1 + - oh * Vector.x3 fp,
                x2 = ft2,
                x3 = ft3 + oh * Vector.x1 fp\<rparr>)
          else \<lparr>Vector.x1 = ft1, x2 = ft2, x3 = ft3\<rparr>))"

text \<open>
  Step 4, second half: the inverse matrix elements (A, B, C, D), as the C code computes
  them. Without the shearing box only D is computed.
\<close>

definition fulimp_matrix ::
  "Config \<Rightarrow> ('g, 'p, 'a) Grid_scheme \<Rightarrow> real \<Rightarrow> real \<Rightarrow> real \<times> real \<times> real \<times> real" where
  "fulimp_matrix cfg pG ts11 ts12 =
     (let D = 1.0 + 0.5 * dt pG * (ts11 + ts12 + dt pG * ts11 * ts12);
          oh = Omega cfg * dt pG;
          oh2 = SQR oh;
          B = oh * (- 2.0 - (ts11 + ts12) * dt pG);
          A = (if FARGO cfg then D - 0.5 * oh2 else D - 2.0 * oh2);
          C = (if FARGO cfg then - 0.25 * B else - B)
      in (A, B, C, D))"

text \<open>
  The velocity update. There is no test on the determinant: \<^verbatim>\<open>Det1\<close> is the quotient
  1/(A*A - B*C) whatever its denominator is.
\<close>

definition fulimp_velocity_update ::
  "Config \<Rightarrow> ('g, 'p, 'a) Grid_scheme \<Rightarrow> Vector \<Rightarrow> real \<Rightarrow> real \<Rightarrow> real \<times> real \<times> real" where
  "fulimp_velocity_update cfg pG ft ts11 ts12 =
     (case fulimp_matrix cfg pG ts11 ts12 of
        (A, B, C, D) \<Rightarrow>
     (let Det1 = 1.0 / (SQR A - B * C)
      in (if SHEARING_BOX cfg then
            (if Nx3 pG > 1 then
               (dt pG * Det1 * (Vector.x1 ft * A - Vector.x2 ft * B),
                dt pG * Det1 * (- Vector.x1 ft * C + Vector.x2 ft * A),
                dt pG * Vector.x3 ft / D)
             else
               (dt pG * Det1 * (Vector.x1 ft * A - Vector.x3 ft * B),
                dt pG * Vector.x2 ft / D,
                dt pG * Det1 * (- Vector.x1 ft * C + Vector.x3 ft * A)))
          else
            (dt pG * Vector.x1 ft * (1.0 / D),
             dt pG * Vector.x2 ft * (1.0 / D),
             dt pG * Vector.x3 ft * (1.0 / D)))))"

definition fulimp_dv ::
  "Config \<Rightarrow> 'w Env \<Rightarrow> ('g, 'p, 'a) Grid_scheme \<Rightarrow> Vector \<Rightarrow> 'g Grain_scheme
     \<Rightarrow> (real \<times> real \<times> real) \<times> 'w event list" where
  "fulimp_dv cfg env pG cell1 curG =
     (case fulimp_forces cfg env pG cell1 curG of
        (fc, ts11, fp, ts12, ev) \<Rightarrow>
          (fulimp_velocity_update cfg pG (fulimp_total_force cfg pG fc fp ts11) ts11 ts12, ev))"

text \<open>
  Step 7's test: the new position is outside the live region; under FARGO the x2
  direction is not looked at.
\<close>

definition crossing :: "Config \<Rightarrow> 'h Grain_scheme \<Rightarrow> bool" where
  "crossing cfg curP \<longleftrightarrow>
     (if \<not> FARGO cfg then
        Grain.x1 curP \<ge> x1upar cfg \<or> Grain.x1 curP < x1lpar cfg \<or>
        Grain.x2 curP \<ge> x2upar cfg \<or> Grain.x2 curP < x2lpar cfg \<or>
        Grain.x3 curP \<ge> x3upar cfg \<or> Grain.x3 curP < x3lpar cfg
      else
        Grain.x1 curP \<ge> x1upar cfg \<or> Grain.x1 curP < x1lpar cfg \<or>
        Grain.x3 curP \<ge> x3upar cfg \<or> Grain.x3 curP < x3lpar cfg)"

text \<open>
  Steps 5 to 7, the same text in the three integrators: the new velocity and position
  go to the temporary grain \<^verbatim>\<open>curP\<close>, the FARGO shift is stored in the grain itself,
  the feedback is computed from the old grain and \<^verbatim>\<open>curP\<close>, the grain is tagged when it
  left the live region, and position and velocity are copied back. Only the position and
  velocity of \<^verbatim>\<open>curP\<close> are ever read, so it is a copy of the grain with these six fields
  replaced (the fully implicit integrator also copies \<^verbatim>\<open>property\<close> into it).
\<close>

definition update_particle ::
  "Config \<Rightarrow> 'w Env \<Rightarrow> ('g, 'p, 'a) Grid_scheme \<Rightarrow> Vector \<Rightarrow> 'g Grain_scheme
     \<Rightarrow> real \<times> real \<times> real \<Rightarrow> 'g Grain_scheme \<times> 'w event list" where
  "update_particle cfg env pG cell1 curG dv =
     (case dv of
        (dv1, dv2, dv3) \<Rightarrow>
     (let pv1 = v1 curG + dv1;
          pv2 = v2 curG + dv2;
          pv3 = v3 curG + dv3;
          px1 = (if Nx1 pG > 1 then Grain.x1 curG + 0.5 * dt pG * (v1 curG + pv1)
                 else Grain.x1 curG);
          px2 = (if Nx2 pG > 1 then Grain.x2 curG + 0.5 * dt pG * (v2 curG + pv2)
                 else Grain.x2 curG);
          px3 = (if Nx3 pG > 1 then Grain.x3 curG + 0.5 * dt pG * (v3 curG + pv3)
                 else Grain.x3 curG);
          curP = curG\<lparr>Grain.x1 := px1, Grain.x2 := px2, Grain.x3 := px3,
                      v1 := pv1, v2 := pv2, v3 := pv3\<rparr>;
          curG1 = (if FARGO cfg
                   then curG\<lparr>shift := - 0.75 * Omega cfg * (Grain.x1 curG + Grain.x1 curP) * dt pG\<rparr>
                   else curG);
          evs = (if FEEDBACK cfg then feedback_corrector cfg env pG curG1 curP cell1 dv1 dv2 dv3
                 else []);
          curG2 = (if crossing cfg curP then curG1\<lparr>pos := 10\<rparr> else curG1)
      in (curG2\<lparr>Grain.x1 := Grain.x1 curP, Grain.x2 := Grain.x2 curP, Grain.x3 := Grain.x3 curP,
                v1 := v1 curP, v2 := v2 curP, v3 := v3 curP\<rparr>, evs)))"

text \<open>The body of the loop of each integrator, for the grain \<^verbatim>\<open>curG\<close>.\<close>

definition exp_step ::
  "Config \<Rightarrow> 'w Env \<Rightarrow> Vector \<Rightarrow> ('g, 'p, 'a) Grid_scheme \<Rightarrow> 'g Grain_scheme
     \<Rightarrow> 'g Grain_scheme \<times> 'w event list" where
  "exp_step cfg env cell1 pG curG =
     (case exp_dv cfg env pG cell1 curG of
        (dv, ev) \<Rightarrow>
          (case update_particle cfg env pG cell1 curG dv of (g, ev') \<Rightarrow> (g, ev @ ev')))"

definition semimp_step ::
  "Config \<Rightarrow> 'w Env \<Rightarrow> Vector \<Rightarrow> ('g, 'p, 'a) Grid_scheme \<Rightarrow> 'g Grain_scheme
     \<Rightarrow> 'g Grain_scheme \<times> 'w event list" where
  "semimp_step cfg env cell1 pG curG =
     (case semimp_dv cfg env pG cell1 curG of
        (dv, ev) \<Rightarrow>
          (case update_particle cfg env pG cell1 curG dv of (g, ev') \<Rightarrow> (g, ev @ ev')))"

definition fulimp_step ::
  "Config \<Rightarrow> 'w Env \<Rightarrow> Vector \<Rightarrow> ('g, 'p, 'a) Grid_scheme \<Rightarrow> 'g Grain_scheme
     \<Rightarrow> 'g Grain_scheme \<times> 'w event list" where
  "fulimp_step cfg env cell1 pG curG =
     (case fulimp_dv cfg env pG cell1 curG of
        (dv, ev) \<Rightarrow>
          (case update_particle cfg env pG cell1 curG dv of (g, ev') \<Rightarrow> (g, ev @ ev')))"

section \<open>The integrators\<close>

text \<open>
  The main loop over all the particles, the same in the three integrators but for the
  body: \<^verbatim>\<open>while (p < pG->nparticle)\<close>, the body on \<^verbatim>\<open>pG->particle[p]\<close>, then \<^verbatim>\<open>p++\<close>.
  The events of the body are appended to those so far.
\<close>

function particle_loop ::
  "(('g, 'p, 'a) Grid_scheme \<Rightarrow> 'g Grain_scheme \<Rightarrow> 'g Grain_scheme \<times> 'w event list)
     \<Rightarrow> nat \<Rightarrow> ('g, 'p, 'a) Grid_scheme \<Rightarrow> 'w event list
     \<Rightarrow> ('g, 'p, 'a) Grid_scheme \<times> 'w event list" where
  "particle_loop body p pG tr =
     (if p < nparticle pG then
        particle_loop body (p + 1)
          (pG\<lparr>particle := (particle pG)[p := fst (body pG (particle pG ! p))]\<rparr>)
          (tr @ snd (body pG (particle pG ! p)))
      else (pG, tr))"
  by pat_completeness auto
termination
  by (relation "measure (\<lambda>(body, p, pG, tr). nparticle pG - p)") auto

declare particle_loop.simps [simp del]

text \<open>
  An integrator: clear the feedback array (under FEEDBACK), set \<^verbatim>\<open>cell1\<close>, delete the
  ghost particles, run the loop, and report the number of particles.
\<close>

definition integrate_with ::
  "(Vector \<Rightarrow> ('g, 'p, 'a) Grid_scheme \<Rightarrow> 'g Grain_scheme \<Rightarrow> 'g Grain_scheme \<times> 'w event list)
     \<Rightarrow> Config \<Rightarrow> ('g, 'p, 'a) Grid_scheme \<Rightarrow> ('g, 'p, 'a) Grid_scheme \<times> 'w event list" where
  "integrate_with body cfg pG =
     (case particle_loop (body (cell1_of pG)) 0 (Delete_Ghost pG)
             (if FEEDBACK cfg then [Feedback_clear] else []) of
        (pG', tr) \<Rightarrow> (pG', tr @ [Ath_pout 0 (my_id pG') (nparticle pG')]))"

definition integrate_particle_exp ::
  "Config \<Rightarrow> 'w Env \<Rightarrow> ('g, 'p, 'a) Grid_scheme \<Rightarrow> ('g, 'p, 'a) Grid_scheme \<times> 'w event list" where
  "integrate_particle_exp cfg env pG = integrate_with (exp_step cfg env) cfg pG"

definition integrate_particle_semimp ::
  "Config \<Rightarrow> 'w Env \<Rightarrow> ('g, 'p, 'a) Grid_scheme \<Rightarrow> ('g, 'p, 'a) Grid_scheme \<times> 'w event list" where
  "integrate_particle_semimp cfg env pG = integrate_with (semimp_step cfg env) cfg pG"

definition integrate_particle_fulimp ::
  "Config \<Rightarrow> 'w Env \<Rightarrow> ('g, 'p, 'a) Grid_scheme \<Rightarrow> ('g, 'p, 'a) Grid_scheme \<times> 'w event list" where
  "integrate_particle_fulimp cfg env pG = integrate_with (fulimp_step cfg env) cfg pG"

section \<open>Notions used to state the properties\<close>

text \<open>
  Two grids have the same setup when they agree on what the loop body reads from the
  grid: the cell counts, the time step, the processor id and the species masses.
\<close>

definition same_setup :: "('g, 'p, 'a) Grid_scheme \<Rightarrow> ('g, 'p, 'a) Grid_scheme \<Rightarrow> bool" where
  "same_setup G G' \<longleftrightarrow>
     Nx1 G = Nx1 G' \<and> Nx2 G = Nx2 G' \<and> Nx3 G = Nx3 G' \<and> dt G = dt G' \<and> my_id G = my_id G' \<and>
     (\<forall>s. m (grproperty G s) = m (grproperty G' s))"

text \<open>
  The deposits of a run: stencil and vector of every call of \<^verbatim>\<open>distrFB\<close>, in order, and
  those of \<^verbatim>\<open>distrFB_shear\<close>.
\<close>

fun deposits :: "'w event list \<Rightarrow> ('w \<times> Vector) list" where
  "deposits [] = []"
| "deposits (DistrFB w fb # tr) = (w, fb) # deposits tr"
| "deposits (e # tr) = deposits tr"

fun shear_deposits :: "'w event list \<Rightarrow> ('w \<times> Vector) list" where
  "shear_deposits [] = []"
| "shear_deposits (DistrFB_shear w fb # tr) = (w, fb) # shear_deposits tr"
| "shear_deposits (e # tr) = shear_deposits tr"

definition total_momentum :: "Vector list \<Rightarrow> Vector" where
  "total_momentum fbs =
     \<lparr>Vector.x1 = sum_list (map Vector.x1 fbs),
      x2 = sum_list (map Vector.x2 fbs),
      x3 = sum_list (map Vector.x3 fbs)\<rparr>"

text \<open>
  The specification's drag impulse of a grain, from the grain \<open>g\<close> before and \<open>g'\<close>
  after the step: m (\<Delta>v - dt f), with \<Delta>v the change of velocity and f the force other
  than drag at the midpoint of the two states; and the midpoint position at which it is
  deposited.
\<close>

definition drag_impulse ::
  "Config \<Rightarrow> ('g, 'p, 'a) Grid_scheme \<Rightarrow> 'g Grain_scheme \<Rightarrow> 'g Grain_scheme \<Rightarrow> Vector" where
  "drag_impulse cfg pG g g' =
     (let f = Get_Force cfg pG
                (0.5 * (Grain.x1 g + Grain.x1 g')) (0.5 * (Grain.x2 g + Grain.x2 g'))
                (0.5 * (Grain.x3 g + Grain.x3 g'))
                (0.5 * (v1 g + v1 g')) (0.5 * (v2 g + v2 g')) (0.5 * (v3 g + v3 g'))
      in \<lparr>Vector.x1 = m (grproperty pG (property g)) * ((v1 g' - v1 g) - dt pG * Vector.x1 f),
          x2 = m (grproperty pG (property g)) * ((v2 g' - v2 g) - dt pG * Vector.x2 f),
          x3 = m (grproperty pG (property g)) * ((v3 g' - v3 g) - dt pG * Vector.x3 f)\<rparr>)"

definition midpoint_stencil ::
  "'w Env \<Rightarrow> ('g, 'p, 'a) Grid_scheme \<Rightarrow> 'g Grain_scheme \<Rightarrow> 'g Grain_scheme \<Rightarrow> 'w" where
  "midpoint_stencil env pG g g' =
     getweight env (0.5 * (Grain.x1 g + Grain.x1 g')) (0.5 * (Grain.x2 g + Grain.x2 g'))
       (0.5 * (Grain.x3 g + Grain.x3 g')) (cell1_of pG)"

text \<open>
  The determinant of the fully implicit integrator: the denominator of \<^verbatim>\<open>Det1\<close>, from
  the matrix elements the code computes.
\<close>

definition fulimp_Det :: "Config \<Rightarrow> ('g, 'p, 'a) Grid_scheme \<Rightarrow> real \<Rightarrow> real \<Rightarrow> real" where
  "fulimp_Det cfg pG ts11 ts12 =
     (case fulimp_matrix cfg pG ts11 ts12 of (A, B, C, D) \<Rightarrow> SQR A - B * C)"

text \<open>
  The total force of the 2D fully implicit path as claim C4 words it: the 3D
  contributions with the indices 2 and 3 swapped, a quarter of the Coriolis term on the
  third component under FARGO.
\<close>

definition claimed_total_force_2d ::
  "Config \<Rightarrow> ('g, 'p, 'a) Grid_scheme \<Rightarrow> Vector \<Rightarrow> Vector \<Rightarrow> real \<Rightarrow> Vector" where
  "claimed_total_force_2d cfg pG fc fp ts11 =
     \<lparr>Vector.x1 = 1 / 2 * (Vector.x1 fc + (1 + dt pG * ts11) * Vector.x1 fp)
                   - Omega cfg * dt pG * Vector.x3 fp,
      x2 = 1 / 2 * (Vector.x2 fc + (1 + dt pG * ts11) * Vector.x2 fp),
      x3 = 1 / 2 * (Vector.x3 fc + (1 + dt pG * ts11) * Vector.x3 fp)
             + (if FARGO cfg then 1 / 4 * (Omega cfg * dt pG) * Vector.x1 fp
                else Omega cfg * dt pG * Vector.x1 fp)\<rparr>"







section \<open>Concrete inputs\<close>

text \<open>
  A grain at rest at the origin, of species \<open>s\<close> and with tag \<open>q\<close>; a species table
  with unit masses and five grains counted per species; and the grid of the
  specification's ghost purge scenario: five grains with tags 0, 1, 0, 2, 0.
\<close>

definition ex_grain :: "int \<Rightarrow> int \<Rightarrow> Grain" where
  "ex_grain s q =
     \<lparr>Grain.x1 = 0, x2 = 0, x3 = 0, v1 = 0, v2 = 0, v3 = 0, property = s, pos = q, shift = 0\<rparr>"

definition ex_table :: "int \<Rightarrow> Grain_Property" where
  "ex_table s = \<lparr>m = 1, num = 5\<rparr>"

definition purge_grid :: "(unit, unit) Grid" where
  "purge_grid =
     \<lparr>Nx1 = 8, Nx2 = 1, Nx3 = 1, dx1 = 1, dx2 = 1, dx3 = 1, dt = 1 / 100, my_id = 0,
      nparticle = 5, particle = map (ex_grain 0) [0, 1, 0, 2, 0], grproperty = ex_table\<rparr>"

text \<open>
  Gas at rest everywhere in the grid, with density and sound speed 1 and stopping
  time 1; the stencil carries no information.
\<close>

definition rest_env :: "unit Env" where
  "rest_env =
     \<lparr>getweight = (\<lambda>a b c d. ()),
      getvalues = (\<lambda>w. (0, 1, 0, 0, 0, 1)),
      gasvshift = (\<lambda>a b c u. u),
      get_ts = (\<lambda>ty rho cs vd. 1)\<rparr>"

text \<open>
  A shearing sheet without FARGO, with orbital frequency 1 and live region [-10, 10) on
  every axis; and a 2D grid (axes X, Z, Y: the third axis is collapsed) and a 3D grid,
  each with one live grain at the origin moving along x1.
\<close>

definition shear_cfg :: Config where
  "shear_cfg =
     \<lparr>SHEARING_BOX = True, FARGO = False, VERTICAL_GRAVITY = False, FEEDBACK = False, Omega = 1,
      x1lpar = - 10, x1upar = 10, x2lpar = - 10, x2upar = 10, x3lpar = - 10, x3upar = 10\<rparr>"

definition shear2d_grid :: "(unit, unit) Grid" where
  "shear2d_grid =
     \<lparr>Nx1 = 8, Nx2 = 8, Nx3 = 1, dx1 = 1, dx2 = 1, dx3 = 1, dt = 1 / 2, my_id = 0,
      nparticle = 1,
      particle = [\<lparr>Grain.x1 = 0, x2 = 0, x3 = 0, v1 = 1, v2 = 0, v3 = 0,
                   property = 0, pos = 1, shift = 0\<rparr>],
      grproperty = ex_table\<rparr>"

definition shear3d_grid :: "(unit, unit) Grid" where
  "shear3d_grid = shear2d_grid\<lparr>Nx3 := 8\<rparr>"

text \<open>
  A shearing sheet with FARGO, the live region of x2 being [-1, 1), and a 2D grid with
  one live grain inside the region moving up along x2.
\<close>

definition fargo_cfg :: Config where
  "fargo_cfg =
     \<lparr>SHEARING_BOX = True, FARGO = True, VERTICAL_GRAVITY = False, FEEDBACK = False, Omega = 1,
      x1lpar = - 10, x1upar = 10, x2lpar = - 1, x2upar = 1, x3lpar = - 10, x3upar = 10\<rparr>"

definition fargo2d_grid :: "(unit, unit) Grid" where
  "fargo2d_grid =
     \<lparr>Nx1 = 8, Nx2 = 8, Nx3 = 1, dx1 = 1, dx2 = 1, dx3 = 1, dt = 1 / 2, my_id = 0,
      nparticle = 1,
      particle = [\<lparr>Grain.x1 = 0, x2 = 3 / 4, x3 = 0, v1 = 0, v2 = 2, v3 = 0,
                   property = 0, pos = 1, shift = 0\<rparr>],
      grproperty = ex_table\<rparr>"

text \<open>
  No shearing sheet, no feedback; and the shearing sheet of \<open>shear_cfg\<close> with feedback.
\<close>

definition plain_cfg :: Config where
  "plain_cfg = shear_cfg\<lparr>SHEARING_BOX := False\<rparr>"

definition feedback_cfg :: Config where
  "feedback_cfg = shear_cfg\<lparr>FEEDBACK := True\<rparr>"


text \<open>
  An input at which the determinant of the fully implicit integrator vanishes: orbital
  frequency 1/2, time step 1, and a stopping time of -1 from \<^verbatim>\<open>get_ts\<close>.
\<close>

definition det_cfg :: Config where
  "det_cfg = shear_cfg\<lparr>Omega := 1 / 2\<rparr>"

definition det_env :: "unit Env" where
  "det_env = rest_env\<lparr>get_ts := (\<lambda>ty rho cs vd. - 1)\<rparr>"

definition det_grid :: "(unit, unit) Grid" where
  "det_grid = shear3d_grid\<lparr>dt := 1\<rparr>"

section \<open>Properties of a run, grain by grain\<close>

text \<open>
  The grain in slot \<open>i\<close> when an integrator returns is the grain the ghost purge left in
  slot \<open>i\<close>, advanced by the loop body; the purge copies grains whole. The predicates
  below compare, slot by slot, the grid \<open>pG'\<close> an integrator returns with the purged
  entry grid.

  \<open>frame_kept\<close>: every grain in the array on return comes from an entry grain of the
  logical array, with the same species index and the same further fields; its tag is the
  entry tag or 10, and without FARGO its shift is the entry shift.
\<close>

definition frame_kept ::
  "Config \<Rightarrow> ('g, 'p, 'a) Grid_scheme \<Rightarrow> ('g, 'p, 'a) Grid_scheme \<Rightarrow> bool" where
  "frame_kept cfg pG pG' \<longleftrightarrow>
     nparticle pG' = nparticle (Delete_Ghost pG) \<and>
     (\<forall>i < nparticle pG'.
        particle (Delete_Ghost pG) ! i \<in> set (take (nparticle pG) (particle pG)) \<and>
        property (particle pG' ! i) = property (particle (Delete_Ghost pG) ! i) \<and>
        (pos (particle pG' ! i) = pos (particle (Delete_Ghost pG) ! i) \<or>
         pos (particle pG' ! i) = 10) \<and>
        (\<not> FARGO cfg \<longrightarrow> shift (particle pG' ! i) = shift (particle (Delete_Ghost pG) ! i)) \<and>
        Grain.more (particle pG' ! i) = Grain.more (particle (Delete_Ghost pG) ! i))"

text \<open>\<open>collapsed_kept\<close>: on an axis that is not active the position is the entry position.\<close>

definition collapsed_kept ::
  "('g, 'p, 'a) Grid_scheme \<Rightarrow> ('g, 'p, 'a) Grid_scheme \<Rightarrow> bool" where
  "collapsed_kept pG pG' \<longleftrightarrow>
     (\<forall>i < nparticle pG'.
        (Nx1 pG \<le> 1 \<longrightarrow> Grain.x1 (particle pG' ! i) = Grain.x1 (particle (Delete_Ghost pG) ! i)) \<and>
        (Nx2 pG \<le> 1 \<longrightarrow> Grain.x2 (particle pG' ! i) = Grain.x2 (particle (Delete_Ghost pG) ! i)) \<and>
        (Nx3 pG \<le> 1 \<longrightarrow> Grain.x3 (particle pG' ! i) = Grain.x3 (particle (Delete_Ghost pG) ! i)))"

text \<open>
  \<open>velocity_advanced\<close>: on every axis the velocity on return is the entry velocity plus
  the velocity update \<open>dv\<close> of the integrator for that grain.
\<close>

definition velocity_advanced ::
  "(('g, 'p, 'a) Grid_scheme \<Rightarrow> Vector \<Rightarrow> 'g Grain_scheme \<Rightarrow> (real \<times> real \<times> real) \<times> 'w event list)
     \<Rightarrow> ('g, 'p, 'a) Grid_scheme \<Rightarrow> ('g, 'p, 'a) Grid_scheme \<Rightarrow> bool" where
  "velocity_advanced dv pG pG' \<longleftrightarrow>
     (\<forall>i < nparticle pG'.
        v1 (particle pG' ! i) = v1 (particle (Delete_Ghost pG) ! i)
           + fst (fst (dv pG (cell1_of pG) (particle (Delete_Ghost pG) ! i))) \<and>
        v2 (particle pG' ! i) = v2 (particle (Delete_Ghost pG) ! i)
           + fst (snd (fst (dv pG (cell1_of pG) (particle (Delete_Ghost pG) ! i)))) \<and>
        v3 (particle pG' ! i) = v3 (particle (Delete_Ghost pG) ! i)
           + snd (snd (fst (dv pG (cell1_of pG) (particle (Delete_Ghost pG) ! i)))))"

text \<open>
  \<open>tagged_on_x1_x3\<close>: the tag on return is 10 when the new x1 or the new x3 is outside
  its half-open interval, and the entry tag otherwise; x2 plays no part.
\<close>

definition tagged_on_x1_x3 ::
  "Config \<Rightarrow> ('g, 'p, 'a) Grid_scheme \<Rightarrow> ('g, 'p, 'a) Grid_scheme \<Rightarrow> bool" where
  "tagged_on_x1_x3 cfg pG pG' \<longleftrightarrow>
     (\<forall>i < nparticle pG'.
        pos (particle pG' ! i) =
          (if Grain.x1 (particle pG' ! i) \<ge> x1upar cfg \<or> Grain.x1 (particle pG' ! i) < x1lpar cfg \<or>
              Grain.x3 (particle pG' ! i) \<ge> x3upar cfg \<or> Grain.x3 (particle pG' ! i) < x3lpar cfg
           then 10 else pos (particle (Delete_Ghost pG) ! i)))"

text \<open>
  \<open>feedback_deposited\<close>, for the grid and the events an integrator returns: the calls
  of \<^verbatim>\<open>distrFB\<close> are, in slot order, one per grain of the array, each with the stencil
  at the midpoint of the grain before and after the step and with the grain's drag
  impulse; hence the sum of the deposited vectors is the sum of the impulses; and
  \<^verbatim>\<open>distrFB_shear\<close> is called with the same stencils and vectors in the 3D shearing
  sheet without FARGO, and not at all otherwise.
\<close>

definition feedback_deposited ::
  "Config \<Rightarrow> 'w Env \<Rightarrow> ('g, 'p, 'a) Grid_scheme \<Rightarrow> ('g, 'p, 'a) Grid_scheme \<times> 'w event list \<Rightarrow> bool" where
  "feedback_deposited cfg env pG run \<longleftrightarrow>
     deposits (snd run) =
       map (\<lambda>i. (midpoint_stencil env pG (particle (Delete_Ghost pG) ! i) (particle (fst run) ! i),
                  drag_impulse cfg pG (particle (Delete_Ghost pG) ! i) (particle (fst run) ! i)))
         [0..<nparticle (fst run)] \<and>
     total_momentum (map snd (deposits (snd run))) =
       total_momentum
         (map (\<lambda>i. drag_impulse cfg pG (particle (Delete_Ghost pG) ! i) (particle (fst run) ! i))
            [0..<nparticle (fst run)]) \<and>
     shear_deposits (snd run) =
       (if SHEARING_BOX cfg \<and> \<not> FARGO cfg \<and> Nx3 pG > 1 then deposits (snd run) else [])"

section \<open>Facts about the ghost purge\<close>

text \<open>
  Removing the grain in slot \<open>p\<close> by a swap with the last one keeps the other grains of
  the logical array, as a multiset; the loop keeps the slots below \<open>p\<close>.
\<close>

lemma drop_update_head:
  assumes "p < length qs"
  shows "drop p (qs[p := a]) = a # drop (Suc p) qs"
proof -
  have "drop p (qs[p := a]) = (drop p qs)[0 := a]"
    by (simp add: drop_update_swap)
  also have "drop p qs = qs ! p # drop (Suc p) qs"
    using assms Cons_nth_drop_Suc[of p qs, symmetric] by simp
  finally show ?thesis by simp
qed

lemma swap_last_mset:
  assumes "p < n" "n \<le> length ps"
  shows "add_mset (ps ! p) (mset (drop p (take (n - 1) (ps[p := ps ! (n - 1)])))) = mset (drop p (take n ps))"
proof (cases "p = n - 1")
  case True
  with assms show ?thesis
    by (simp add: drop_take take_Suc_conv_app_nth Cons_nth_drop_Suc[symmetric])
next
  case False
  with assms have lt: "p < n - 1" by simp
  obtain k where k: "n = Suc k" using assms by (cases n) auto
  have a: "take n ps = take (n - 1) ps @ [ps ! (n - 1)]"
    using assms k by (simp add: take_Suc_conv_app_nth)
  have b: "drop p (take (n - 1) (ps[p := ps ! (n - 1)])) = ps ! (n - 1) # drop (Suc p) (take (n - 1) ps)"
    using lt assms by (simp add: take_update_swap drop_update_head) 
  have c: "drop p (take (n - 1) ps) = ps ! p # drop (Suc p) (take (n - 1) ps)"
    using lt assms Cons_nth_drop_Suc[of p "take (n - 1) ps", symmetric] by simp
  show ?thesis unfolding a using b c lt assms by simp
qed

lemma Delete_Ghost_loop_done: "\<not> p < nparticle pG \<Longrightarrow> Delete_Ghost_loop p pG = pG"
  by (subst Delete_Ghost_loop.simps) simp

lemma Delete_Ghost_loop_ghost:
  "p < nparticle pG \<Longrightarrow> pos (particle pG ! p) = 0 \<Longrightarrow>
   Delete_Ghost_loop p pG = Delete_Ghost_loop p (Delete_Ghost_swap p pG)"
  by (subst Delete_Ghost_loop.simps) simp

lemma Delete_Ghost_loop_live:
  "p < nparticle pG \<Longrightarrow> pos (particle pG ! p) \<noteq> 0 \<Longrightarrow>
   Delete_Ghost_loop p pG = Delete_Ghost_loop (p + 1) pG"
  by (subst Delete_Ghost_loop.simps) simp

lemma swap_nparticle: "nparticle (Delete_Ghost_swap p pG) = nparticle pG - 1"
  and swap_particle: "particle (Delete_Ghost_swap p pG) = (particle pG)[p := particle pG ! (nparticle pG - 1)]"
  by (simp_all add: Delete_Ghost_swap_def)

lemma Delete_Ghost_loop_length:
  "length (particle (Delete_Ghost_loop p pG)) = length (particle pG)"
proof (induction p pG rule: Delete_Ghost_loop.induct)
  case (1 p pG)
  show ?case
  proof (cases "p < nparticle pG")
    case False
    then show ?thesis by (simp add: Delete_Ghost_loop_done)
  next
    case lt: True
    show ?thesis
    proof (cases "pos (particle pG ! p) = 0")
      case True
      then show ?thesis
        using "1.IH"(1)[OF lt True] lt by (simp add: Delete_Ghost_loop_ghost swap_particle)
    next
      case False
      then show ?thesis
        using "1.IH"(2)[OF lt False] lt by (simp add: Delete_Ghost_loop_live)
    qed
  qed
qed

lemma Delete_Ghost_loop_bounds:
  "p \<le> nparticle pG \<Longrightarrow>
   p \<le> nparticle (Delete_Ghost_loop p pG) \<and> nparticle (Delete_Ghost_loop p pG) \<le> nparticle pG"
proof (induction p pG rule: Delete_Ghost_loop.induct)
  case (1 p pG)
  show ?case
  proof (cases "p < nparticle pG")
    case False
    then show ?thesis using "1.prems" by (simp add: Delete_Ghost_loop_done)
  next
    case lt: True
    show ?thesis
    proof (cases "pos (particle pG ! p) = 0")
      case True
      have "p \<le> nparticle (Delete_Ghost_swap p pG)"
        using lt by (simp add: swap_nparticle)
      from "1.IH"(1)[OF lt True this] show ?thesis
        using lt True by (auto simp add: Delete_Ghost_loop_ghost swap_nparticle)
    next
      case False
      have "p + 1 \<le> nparticle pG" using lt by simp
      from "1.IH"(2)[OF lt False this] show ?thesis
        using lt False by (auto simp add: Delete_Ghost_loop_live)
    qed
  qed
qed

lemma Delete_Ghost_loop_prefix:
  "take p (particle (Delete_Ghost_loop p pG)) = take p (particle pG)"
proof (induction p pG rule: Delete_Ghost_loop.induct)
  case (1 p pG)
  show ?case
  proof (cases "p < nparticle pG")
    case False
    then show ?thesis by (simp add: Delete_Ghost_loop_done)
  next
    case lt: True
    show ?thesis
    proof (cases "pos (particle pG ! p) = 0")
      case True
      then show ?thesis
        using "1.IH"(1)[OF lt True] lt by (simp add: Delete_Ghost_loop_ghost swap_particle)
    next
      case False
      have "take (p + 1) (particle (Delete_Ghost_loop (p + 1) pG)) = take (p + 1) (particle pG)"
        using "1.IH"(2)[OF lt False] .
      then have "take p (take (p + 1) (particle (Delete_Ghost_loop (p + 1) pG))) = take p (take (p + 1) (particle pG))"
        by simp
      then show ?thesis
        using lt False by (simp add: Delete_Ghost_loop_live min_def)
    qed
  qed
qed

lemma swap_grproperty_num:
  "num (grproperty (Delete_Ghost_swap p pG) s) =
     num (grproperty pG s) - (if property (particle pG ! p) = s then 1 else 0)"
  by (simp add: Delete_Ghost_swap_def)

lemma Delete_Ghost_loop_mset:
  "p \<le> nparticle pG \<Longrightarrow> nparticle pG \<le> length (particle pG) \<Longrightarrow>
   mset (drop p (take (nparticle (Delete_Ghost_loop p pG)) (particle (Delete_Ghost_loop p pG))))
     = filter_mset (\<lambda>g. pos g \<noteq> 0) (mset (drop p (take (nparticle pG) (particle pG))))"
proof (induction p pG rule: Delete_Ghost_loop.induct)
  case (1 p pG)
  show ?case
  proof (cases "p < nparticle pG")
    case False
    then show ?thesis using "1.prems" by (simp add: Delete_Ghost_loop_done)
  next
    case lt: True
    show ?thesis
    proof (cases "pos (particle pG ! p) = 0")
      case True
      have sw: "add_mset (particle pG ! p)
                  (mset (drop p (take (nparticle (Delete_Ghost_swap p pG)) (particle (Delete_Ghost_swap p pG)))))
                = mset (drop p (take (nparticle pG) (particle pG)))"
        using swap_last_mset[OF lt "1.prems"(2)] by (simp add: swap_nparticle swap_particle)
      have ih: "mset (drop p (take (nparticle (Delete_Ghost_loop p (Delete_Ghost_swap p pG)))
                    (particle (Delete_Ghost_loop p (Delete_Ghost_swap p pG)))))
        = filter_mset (\<lambda>g. pos g \<noteq> 0)
            (mset (drop p (take (nparticle (Delete_Ghost_swap p pG)) (particle (Delete_Ghost_swap p pG)))))"
        using "1.IH"(1)[OF lt True] lt "1.prems" by (simp add: swap_nparticle swap_particle)
      show ?thesis
        unfolding Delete_Ghost_loop_ghost[OF lt True] ih sw[symmetric] using True by simp
    next
      case False
      let ?R = "Delete_Ghost_loop (p + 1) pG"
      have ih: "mset (drop (p + 1) (take (nparticle ?R) (particle ?R)))
        = filter_mset (\<lambda>g. pos g \<noteq> 0) (mset (drop (p + 1) (take (nparticle pG) (particle pG))))"
        using "1.IH"(2)[OF lt False] lt "1.prems" by simp
      have b: "p + 1 \<le> nparticle ?R" "nparticle ?R \<le> nparticle pG"
        using Delete_Ghost_loop_bounds[of "p + 1" pG] lt by auto
      have len: "length (particle ?R) = length (particle pG)"
        by (rule Delete_Ghost_loop_length)
      have pre: "take (p + 1) (particle ?R) = take (p + 1) (particle pG)"
        by (rule Delete_Ghost_loop_prefix)
      have same: "particle ?R ! p = particle pG ! p"
      proof -
        have "take (p + 1) (particle ?R) ! p = take (p + 1) (particle pG) ! p"
          using pre by simp
        then show ?thesis by simp
      qed
      have d1: "drop p (take (nparticle ?R) (particle ?R))
                  = particle ?R ! p # drop (p + 1) (take (nparticle ?R) (particle ?R))"
        using b len "1.prems" Cons_nth_drop_Suc[of p "take (nparticle ?R) (particle ?R)", symmetric] by simp
      have d2: "drop p (take (nparticle pG) (particle pG))
                  = particle pG ! p # drop (p + 1) (take (nparticle pG) (particle pG))"
        using lt "1.prems" Cons_nth_drop_Suc[of p "take (nparticle pG) (particle pG)", symmetric] by simp
      show ?thesis
        unfolding Delete_Ghost_loop_live[OF lt False] d1 d2 using ih False same by simp
    qed
  qed
qed

lemma Delete_Ghost_loop_num:
  "p \<le> nparticle pG \<Longrightarrow> nparticle pG \<le> length (particle pG) \<Longrightarrow>
   num (grproperty (Delete_Ghost_loop p pG) s)
     = num (grproperty pG s)
       - int (size (filter_mset (\<lambda>g. pos g = 0 \<and> property g = s)
                      (mset (drop p (take (nparticle pG) (particle pG))))))"
proof (induction p pG rule: Delete_Ghost_loop.induct)
  case (1 p pG)
  show ?case
  proof (cases "p < nparticle pG")
    case False
    then show ?thesis using "1.prems" by (simp add: Delete_Ghost_loop_done)
  next
    case lt: True
    show ?thesis
    proof (cases "pos (particle pG ! p) = 0")
      case True
      have sw: "add_mset (particle pG ! p)
                  (mset (drop p (take (nparticle (Delete_Ghost_swap p pG)) (particle (Delete_Ghost_swap p pG)))))
                = mset (drop p (take (nparticle pG) (particle pG)))"
        using swap_last_mset[OF lt "1.prems"(2)] by (simp add: swap_nparticle swap_particle)
      have ih: "num (grproperty (Delete_Ghost_loop p (Delete_Ghost_swap p pG)) s)
        = num (grproperty (Delete_Ghost_swap p pG) s)
          - int (size (filter_mset (\<lambda>g. pos g = 0 \<and> property g = s)
            (mset (drop p (take (nparticle (Delete_Ghost_swap p pG)) (particle (Delete_Ghost_swap p pG)))))))"
        using "1.IH"(1)[OF lt True] lt "1.prems" by (simp add: swap_nparticle swap_particle)
      show ?thesis
        unfolding Delete_Ghost_loop_ghost[OF lt True] ih sw[symmetric] swap_grproperty_num
        using True by simp
    next
      case False
      have ih: "num (grproperty (Delete_Ghost_loop (p + 1) pG) s)
        = num (grproperty pG s)
          - int (size (filter_mset (\<lambda>g. pos g = 0 \<and> property g = s)
              (mset (drop (p + 1) (take (nparticle pG) (particle pG))))))"
        using "1.IH"(2)[OF lt False] lt "1.prems" by simp
      have d2: "drop p (take (nparticle pG) (particle pG))
                  = particle pG ! p # drop (p + 1) (take (nparticle pG) (particle pG))"
        using lt "1.prems" Cons_nth_drop_Suc[of p "take (nparticle pG) (particle pG)", symmetric] by simp
      show ?thesis
        unfolding Delete_Ghost_loop_live[OF lt False] d2 using ih False by simp
    qed
  qed
qed

section \<open>Facts about the main loop\<close>

text \<open>
  The purge changes \<^verbatim>\<open>nparticle\<close>, the counters and the array only. The main loop
  changes the array only: slot \<open>i\<close> gets the body's grain, and the events are those of
  the body, slot after slot.
\<close>

lemma Delete_Ghost_loop_shape:
  "\<exists>n gp ps. Delete_Ghost_loop p pG = pG\<lparr>nparticle := n, grproperty := gp, particle := ps\<rparr>
     \<and> (\<forall>s. m (gp s) = m (grproperty pG s))"
proof (induction p pG rule: Delete_Ghost_loop.induct)
  case (1 p pG)
  show ?case
  proof (cases "p < nparticle pG")
    case False
    have "pG = pG\<lparr>nparticle := nparticle pG, grproperty := grproperty pG, particle := particle pG\<rparr>"
      by simp
    then show ?thesis using False by (metis Delete_Ghost_loop_done)
  next
    case lt: True
    show ?thesis
    proof (cases "pos (particle pG ! p) = 0")
      case True
      from "1.IH"(1)[OF lt True] obtain n gp ps where
        h: "Delete_Ghost_loop p (Delete_Ghost_swap p pG)
              = (Delete_Ghost_swap p pG)\<lparr>nparticle := n, grproperty := gp, particle := ps\<rparr>"
        and hm: "\<forall>s. m (gp s) = m (grproperty (Delete_Ghost_swap p pG) s)"
        by blast
      have "Delete_Ghost_loop p pG = pG\<lparr>nparticle := n, grproperty := gp, particle := ps\<rparr>"
        unfolding Delete_Ghost_loop_ghost[OF lt True] h by (simp add: Delete_Ghost_swap_def)
      moreover have "\<forall>s. m (gp s) = m (grproperty pG s)"
        using hm by (simp add: Delete_Ghost_swap_def)
      ultimately show ?thesis by blast
    next
      case False
      from "1.IH"(2)[OF lt False] show ?thesis
        unfolding Delete_Ghost_loop_live[OF lt False] .
    qed
  qed
qed

lemma particle_loop_done: "\<not> p < nparticle pG \<Longrightarrow> particle_loop body p pG tr = (pG, tr)"
  by (subst particle_loop.simps) simp

lemma particle_loop_next:
  "p < nparticle pG \<Longrightarrow>
   particle_loop body p pG tr =
     particle_loop body (p + 1)
       (pG\<lparr>particle := (particle pG)[p := fst (body pG (particle pG ! p))]\<rparr>)
       (tr @ snd (body pG (particle pG ! p)))"
  by (subst particle_loop.simps) simp

lemma particle_loop_grid:
  "fst (particle_loop body p pG tr) = pG\<lparr>particle := particle (fst (particle_loop body p pG tr))\<rparr>"
proof (induction body p pG tr rule: particle_loop.induct)
  case (1 body p pG tr)
  show ?case
  proof (cases "p < nparticle pG")
    case False
    then show ?thesis by (simp add: particle_loop_done)
  next
    case True
    let ?G = "pG\<lparr>particle := (particle pG)[p := fst (body pG (particle pG ! p))]\<rparr>"
    let ?R = "particle_loop body (p + 1) ?G (tr @ snd (body pG (particle pG ! p)))"
    have "fst ?R = ?G\<lparr>particle := particle (fst ?R)\<rparr>"
      using "1.IH"[OF True] .
    also have "\<dots> = pG\<lparr>particle := particle (fst ?R)\<rparr>" by simp
    finally show ?thesis unfolding particle_loop_next[OF True] .
  qed
qed

lemma particle_loop_length:
  "length (particle (fst (particle_loop body p pG tr))) = length (particle pG)"
proof (induction body p pG tr rule: particle_loop.induct)
  case (1 body p pG tr)
  show ?case
  proof (cases "p < nparticle pG")
    case False
    then show ?thesis by (simp add: particle_loop_done)
  next
    case True
    from "1.IH"[OF True] show ?thesis
      unfolding particle_loop_next[OF True] by simp
  qed
qed

lemma particle_loop_nth:
  "\<forall>G ps. body (G\<lparr>particle := ps\<rparr>) = body G \<Longrightarrow>
   nparticle pG \<le> length (particle pG) \<Longrightarrow>
   particle (fst (particle_loop body p pG tr)) ! i =
     (if p \<le> i \<and> i < nparticle pG then fst (body pG (particle pG ! i)) else particle pG ! i)"
proof (induction body p pG tr rule: particle_loop.induct)
  case (1 body p pG tr)
  show ?case
  proof (cases "p < nparticle pG")
    case False
    then show ?thesis by (auto simp add: particle_loop_done)
  next
    case True
    let ?G = "pG\<lparr>particle := (particle pG)[p := fst (body pG (particle pG ! p))]\<rparr>"
    let ?R = "particle_loop body (p + 1) ?G (tr @ snd (body pG (particle pG ! p)))"
    have b: "body ?G = body pG" using "1.prems"(1) by simp
    have "particle (fst ?R) ! i =
            (if p + 1 \<le> i \<and> i < nparticle ?G then fst (body ?G (particle ?G ! i)) else particle ?G ! i)"
      using "1.IH"[OF True "1.prems"(1)] "1.prems"(2) by simp
    then show ?thesis
      unfolding particle_loop_next[OF True] b using True "1.prems"(2)
      by (cases "i = p") auto
  qed
qed

lemma particle_loop_events:
  "\<forall>G ps. body (G\<lparr>particle := ps\<rparr>) = body G \<Longrightarrow>
   nparticle pG \<le> length (particle pG) \<Longrightarrow>
   snd (particle_loop body p pG tr) =
     tr @ concat (map (\<lambda>g. snd (body pG g)) (drop p (take (nparticle pG) (particle pG))))"
proof (induction body p pG tr rule: particle_loop.induct)
  case (1 body p pG tr)
  show ?case
  proof (cases "p < nparticle pG")
    case False
    then show ?thesis by (simp add: particle_loop_done)
  next
    case True
    let ?G = "pG\<lparr>particle := (particle pG)[p := fst (body pG (particle pG ! p))]\<rparr>"
    let ?R = "particle_loop body (p + 1) ?G (tr @ snd (body pG (particle pG ! p)))"
    have b: "body ?G = body pG" using "1.prems"(1) by simp
    have ih: "snd ?R = (tr @ snd (body pG (particle pG ! p))) @
                concat (map (\<lambda>g. snd (body ?G g)) (drop (p + 1) (take (nparticle ?G) (particle ?G))))"
      using "1.IH"[OF True "1.prems"(1)] "1.prems"(2) by simp
    have d: "drop (p + 1) (take (nparticle pG) ((particle pG)[p := fst (body pG (particle pG ! p))]))
               = drop (p + 1) (take (nparticle pG) (particle pG))"
      by (simp add: take_update_swap)
    have d2: "drop p (take (nparticle pG) (particle pG))
                  = particle pG ! p # drop (p + 1) (take (nparticle pG) (particle pG))"
      using True "1.prems"(2) Cons_nth_drop_Suc[of p "take (nparticle pG) (particle pG)", symmetric] by simp
    show ?thesis
      unfolding particle_loop_next[OF True] ih b d2 using d by simp
  qed
qed

section \<open>The loop body reads the setup of the grid only\<close>

lemma same_setup_refl: "same_setup G G"
  by (simp add: same_setup_def)

lemma same_setup_particle: "same_setup (G\<lparr>particle := ps\<rparr>) G"
  by (simp add: same_setup_def)

lemma same_setup_Delete_Ghost: "same_setup (Delete_Ghost pG) pG"
proof -
  obtain n gp ps where
    h: "Delete_Ghost_loop 0 pG = pG\<lparr>nparticle := n, grproperty := gp, particle := ps\<rparr>"
    and hm: "\<forall>s. m (gp s) = m (grproperty pG s)"
    using Delete_Ghost_loop_shape[of 0 pG] by blast
  show ?thesis
    unfolding Delete_Ghost_def h using hm by (simp add: same_setup_def)
qed

lemma same_setup_fields:
  assumes "same_setup G G'"
  shows "Nx1 G = Nx1 G'" "Nx2 G = Nx2 G'" "Nx3 G = Nx3 G'" "dt G = dt G'" "my_id G = my_id G'"
    "m (grproperty G s) = m (grproperty G' s)"
  using assms by (simp_all add: same_setup_def)

lemma same_setup_Get_Force:
  "same_setup G G' \<Longrightarrow> Get_Force cfg G = Get_Force cfg G'"
  by (intro ext) (simp add: Get_Force_def same_setup_fields[of G G'] Let_def split: prod.splits)

lemma same_setup_Get_Drag:
  "same_setup G G' \<Longrightarrow> Get_Drag env G = Get_Drag env G'"
  by (intro ext) (simp add: Get_Drag_def same_setup_fields[of G G'] Let_def split: prod.splits)

lemma same_setup_feedback_corrector:
  "same_setup G G' \<Longrightarrow> feedback_corrector cfg env G = feedback_corrector cfg env G'"
  by (intro ext)
     (simp add: feedback_corrector_def same_setup_Get_Force[of G G'] same_setup_fields[of G G'] Let_def split: prod.splits)

lemma same_setup_predictor_half:
  "same_setup G G' \<Longrightarrow> predictor_half cfg G = predictor_half cfg G'"
  by (intro ext) (simp add: predictor_half_def same_setup_fields[of G G'] Let_def split: prod.splits)

lemma same_setup_predictor_full:
  "same_setup G G' \<Longrightarrow> predictor_full cfg G = predictor_full cfg G'"
  by (intro ext) (simp add: predictor_full_def same_setup_fields[of G G'] Let_def split: prod.splits)

lemma same_setup_exp_dv:
  "same_setup G G' \<Longrightarrow> exp_dv cfg env G = exp_dv cfg env G'"
  by (intro ext)
     (simp add: exp_dv_def same_setup_Get_Force[of G G'] same_setup_Get_Drag[of G G']
        same_setup_predictor_half[of G G'] same_setup_fields[of G G'] Let_def split: prod.splits)

lemma same_setup_semimp_dv:
  "same_setup G G' \<Longrightarrow> semimp_dv cfg env G = semimp_dv cfg env G'"
  by (intro ext)
     (simp add: semimp_dv_def same_setup_Get_Force[of G G'] same_setup_Get_Drag[of G G']
        same_setup_predictor_half[of G G'] same_setup_fields[of G G'] Let_def split: prod.splits)

lemma same_setup_fulimp_forces:
  "same_setup G G' \<Longrightarrow> fulimp_forces cfg env G = fulimp_forces cfg env G'"
  by (intro ext)
     (simp add: fulimp_forces_def same_setup_Get_Force[of G G'] same_setup_Get_Drag[of G G']
        same_setup_predictor_full[of G G'] Let_def split: prod.splits)

lemma same_setup_fulimp_total_force:
  "same_setup G G' \<Longrightarrow> fulimp_total_force cfg G = fulimp_total_force cfg G'"
  by (intro ext) (simp add: fulimp_total_force_def same_setup_fields[of G G'] Let_def split: prod.splits)

lemma same_setup_fulimp_matrix:
  "same_setup G G' \<Longrightarrow> fulimp_matrix cfg G = fulimp_matrix cfg G'"
  by (intro ext) (simp add: fulimp_matrix_def same_setup_fields[of G G'] Let_def split: prod.splits)

lemma same_setup_fulimp_velocity_update:
  "same_setup G G' \<Longrightarrow> fulimp_velocity_update cfg G = fulimp_velocity_update cfg G'"
  by (intro ext)
     (simp add: fulimp_velocity_update_def same_setup_fulimp_matrix[of G G']
        same_setup_fields[of G G'] Let_def split: prod.splits)

lemma same_setup_fulimp_dv:
  "same_setup G G' \<Longrightarrow> fulimp_dv cfg env G = fulimp_dv cfg env G'"
  by (intro ext)
     (simp add: fulimp_dv_def same_setup_fulimp_forces[of G G']
        same_setup_fulimp_total_force[of G G'] same_setup_fulimp_velocity_update[of G G'] Let_def split: prod.splits)

lemma same_setup_update_particle:
  "same_setup G G' \<Longrightarrow> update_particle cfg env G = update_particle cfg env G'"
  by (intro ext)
     (simp add: update_particle_def same_setup_feedback_corrector[of G G']
        same_setup_fields[of G G'] Let_def split: prod.splits)

lemma same_setup_exp_step:
  "same_setup G G' \<Longrightarrow> exp_step cfg env c G = exp_step cfg env c G'"
  by (intro ext)
     (simp add: exp_step_def same_setup_exp_dv[of G G'] same_setup_update_particle[of G G'] Let_def split: prod.splits)

lemma same_setup_semimp_step:
  "same_setup G G' \<Longrightarrow> semimp_step cfg env c G = semimp_step cfg env c G'"
  by (intro ext)
     (simp add: semimp_step_def same_setup_semimp_dv[of G G'] same_setup_update_particle[of G G'] Let_def split: prod.splits)

lemma same_setup_fulimp_step:
  "same_setup G G' \<Longrightarrow> fulimp_step cfg env c G = fulimp_step cfg env c G'"
  by (intro ext)
     (simp add: fulimp_step_def same_setup_fulimp_dv[of G G'] same_setup_update_particle[of G G'] Let_def split: prod.splits)

section \<open>A run, slot by slot\<close>

lemma Delete_Ghost_mset:
  "grid_wf pG \<Longrightarrow>
   mset (take (nparticle (Delete_Ghost pG)) (particle (Delete_Ghost pG)))
     = filter_mset (\<lambda>g. pos g \<noteq> 0) (mset (take (nparticle pG) (particle pG)))"
  using Delete_Ghost_loop_mset[of 0 pG] by (simp add: Delete_Ghost_def grid_wf_def)

lemma Delete_Ghost_wf:
  "grid_wf pG \<Longrightarrow> nparticle (Delete_Ghost pG) \<le> length (particle (Delete_Ghost pG))"
  using Delete_Ghost_loop_bounds[of 0 pG] Delete_Ghost_loop_length[of 0 pG]
  by (simp add: Delete_Ghost_def grid_wf_def)

lemma Delete_Ghost_survivor:
  assumes "grid_wf pG" "i < nparticle (Delete_Ghost pG)"
  shows "particle (Delete_Ghost pG) ! i \<in> set (take (nparticle pG) (particle pG))"
    and "pos (particle (Delete_Ghost pG) ! i) \<noteq> 0"
proof -
  let ?D = "Delete_Ghost pG"
  have "i < length (take (nparticle ?D) (particle ?D))"
    using assms Delete_Ghost_wf[OF assms(1)] by simp
  then have "take (nparticle ?D) (particle ?D) ! i \<in> set (take (nparticle ?D) (particle ?D))"
    by (rule nth_mem)
  then have "particle ?D ! i \<in># mset (take (nparticle ?D) (particle ?D))"
    using assms(2) by simp
  then have mem: "particle ?D ! i \<in># filter_mset (\<lambda>g. pos g \<noteq> 0) (mset (take (nparticle pG) (particle pG)))"
    unfolding Delete_Ghost_mset[OF assms(1)] .
  from mem show "particle ?D ! i \<in> set (take (nparticle pG) (particle pG))" by simp
  from mem show "pos (particle ?D ! i) \<noteq> 0" by simp
qed

lemma integrate_with_grid:
  "fst (integrate_with body cfg pG) =
     (Delete_Ghost pG)\<lparr>particle := particle (fst (integrate_with body cfg pG))\<rparr>"
proof -
  let ?L = "particle_loop (body (cell1_of pG)) 0 (Delete_Ghost pG)
              (if FEEDBACK cfg then [Feedback_clear] else [])"
  have a: "fst (integrate_with body cfg pG) = fst ?L"
    by (simp add: integrate_with_def split: prod.splits)
  show ?thesis unfolding a by (rule particle_loop_grid)
qed

lemma integrate_with_nparticle:
  "nparticle (fst (integrate_with body cfg pG)) = nparticle (Delete_Ghost pG)"
  by (subst integrate_with_grid) simp

lemma integrate_with_nth:
  assumes frame: "\<And>c G G'. same_setup G G' \<Longrightarrow> body c G = body c G'"
    and wf: "grid_wf pG" and i: "i < nparticle (Delete_Ghost pG)"
  shows "particle (fst (integrate_with body cfg pG)) ! i =
           fst (body (cell1_of pG) pG (particle (Delete_Ghost pG) ! i))"
proof -
  let ?b = "body (cell1_of pG)"
  let ?L = "particle_loop ?b 0 (Delete_Ghost pG) (if FEEDBACK cfg then [Feedback_clear] else [])"
  have a: "fst (integrate_with body cfg pG) = fst ?L"
    by (simp add: integrate_with_def split: prod.splits)
  have f: "\<forall>G ps. ?b (G\<lparr>particle := ps\<rparr>) = ?b G"
    using frame[OF same_setup_particle] by blast
  have "particle (fst ?L) ! i = fst (?b (Delete_Ghost pG) (particle (Delete_Ghost pG) ! i))"
    using particle_loop_nth[OF f Delete_Ghost_wf[OF wf], of 0 _ i] i by simp
  also have "?b (Delete_Ghost pG) = ?b pG"
    by (rule frame[OF same_setup_Delete_Ghost])
  finally show ?thesis unfolding a .
qed

lemma integrate_with_events:
  assumes frame: "\<And>c G G'. same_setup G G' \<Longrightarrow> body c G = body c G'"
    and wf: "grid_wf pG"
  shows "snd (integrate_with body cfg pG) =
           (if FEEDBACK cfg then [Feedback_clear] else []) @
           concat (map (\<lambda>g. snd (body (cell1_of pG) pG g))
                     (take (nparticle (Delete_Ghost pG)) (particle (Delete_Ghost pG)))) @
           [Ath_pout 0 (my_id pG) (nparticle (Delete_Ghost pG))]"
proof -
  let ?b = "body (cell1_of pG)"
  let ?tr = "if FEEDBACK cfg then [Feedback_clear] else []"
  let ?L = "particle_loop ?b 0 (Delete_Ghost pG) ?tr"
  have a: "snd (integrate_with body cfg pG) =
             snd ?L @ [Ath_pout 0 (my_id (fst ?L)) (nparticle (fst ?L))]"
    by (simp add: integrate_with_def split: prod.splits)
  have g: "fst ?L = (Delete_Ghost pG)\<lparr>particle := particle (fst ?L)\<rparr>"
    by (rule particle_loop_grid)
  have n: "nparticle (fst ?L) = nparticle (Delete_Ghost pG)"
    by (subst g) simp
  have i: "my_id (fst ?L) = my_id pG"
    by (subst g) (simp add: same_setup_fields(5)[OF same_setup_Delete_Ghost])
  have f: "\<forall>G ps. ?b (G\<lparr>particle := ps\<rparr>) = ?b G"
    using frame[OF same_setup_particle] by blast
  have b: "?b (Delete_Ghost pG) = ?b pG"
    by (rule frame[OF same_setup_Delete_Ghost])
  have "snd ?L = ?tr @ concat (map (\<lambda>g. snd (?b (Delete_Ghost pG) g))
                     (drop 0 (take (nparticle (Delete_Ghost pG)) (particle (Delete_Ghost pG)))))"
    by (rule particle_loop_events[OF f Delete_Ghost_wf[OF wf]])
  then show ?thesis unfolding a n i b by simp
qed

lemma update_particle_v:
  "v1 (fst (update_particle cfg env pG c g (d1, d2, d3))) = v1 g + d1"
  "v2 (fst (update_particle cfg env pG c g (d1, d2, d3))) = v2 g + d2"
  "v3 (fst (update_particle cfg env pG c g (d1, d2, d3))) = v3 g + d3"
  by (simp_all add: update_particle_def Let_def)

lemma update_particle_x:
  "Grain.x1 (fst (update_particle cfg env pG c g (d1, d2, d3))) =
     (if Nx1 pG > 1 then Grain.x1 g + 0.5 * dt pG * (v1 g + (v1 g + d1)) else Grain.x1 g)"
  "Grain.x2 (fst (update_particle cfg env pG c g (d1, d2, d3))) =
     (if Nx2 pG > 1 then Grain.x2 g + 0.5 * dt pG * (v2 g + (v2 g + d2)) else Grain.x2 g)"
  "Grain.x3 (fst (update_particle cfg env pG c g (d1, d2, d3))) =
     (if Nx3 pG > 1 then Grain.x3 g + 0.5 * dt pG * (v3 g + (v3 g + d3)) else Grain.x3 g)"
  by (simp_all add: update_particle_def Let_def)

lemma update_particle_frame:
  "property (fst (update_particle cfg env pG c g dv)) = property g"
  "Grain.more (fst (update_particle cfg env pG c g dv)) = Grain.more g"
  "\<not> FARGO cfg \<Longrightarrow> shift (fst (update_particle cfg env pG c g dv)) = shift g"
  by (simp_all add: update_particle_def Let_def split: prod.splits)

lemma update_particle_pos:
  "pos (fst (update_particle cfg env pG c g dv)) =
     (if crossing cfg (fst (update_particle cfg env pG c g dv)) then 10 else pos g)"
  by (simp add: update_particle_def Let_def crossing_def split: prod.splits)

lemma update_particle_deposits:
  "deposits (snd (update_particle cfg env pG (cell1_of pG) g dv)) =
     (if FEEDBACK cfg
      then [(midpoint_stencil env pG g (fst (update_particle cfg env pG (cell1_of pG) g dv)),
             drag_impulse cfg pG g (fst (update_particle cfg env pG (cell1_of pG) g dv)))]
      else [])"
  by (simp add: update_particle_def Let_def feedback_corrector_def midpoint_stencil_def
        drag_impulse_def split: prod.splits)

lemma update_particle_shear_deposits:
  "shear_deposits (snd (update_particle cfg env pG (cell1_of pG) g dv)) =
     (if FEEDBACK cfg \<and> SHEARING_BOX cfg \<and> \<not> FARGO cfg \<and> Nx3 pG > 1
      then [(midpoint_stencil env pG g (fst (update_particle cfg env pG (cell1_of pG) g dv)),
             drag_impulse cfg pG g (fst (update_particle cfg env pG (cell1_of pG) g dv)))]
      else [])"
  by (simp add: update_particle_def Let_def feedback_corrector_def midpoint_stencil_def
        drag_impulse_def split: prod.splits)

lemma size_filter_mset_list: "size (filter_mset P (mset xs)) = length (filter P xs)"
  by (metis mset_filter size_mset)

section \<open>Ghost purge: what is removed\<close>

text \<open>
  Claim C8. For any grain array (within the allocated array), \<^verbatim>\<open>Delete_Ghost\<close> removes
  exactly the grains with \<^verbatim>\<open>pos == 0\<close>: on return \<^verbatim>\<open>nparticle\<close> is the number of entry
  grains with a tag other than 0, the surviving entries are, as a multiset, the entry
  grains with a tag other than 0, and the counter \<^verbatim>\<open>num\<close> of every species has gone
  down by the number of removed ghosts of that species.
\<close>

theorem Delete_Ghost_removes_exactly_ghosts:
  "grid_wf pG \<Longrightarrow>
   nparticle (Delete_Ghost pG)
     = length (filter (\<lambda>g. pos g \<noteq> 0) (take (nparticle pG) (particle pG))) \<and>
   mset (take (nparticle (Delete_Ghost pG)) (particle (Delete_Ghost pG)))
     = mset (filter (\<lambda>g. pos g \<noteq> 0) (take (nparticle pG) (particle pG))) \<and>
   (\<forall>s. num (grproperty (Delete_Ghost pG) s)
          = num (grproperty pG s)
            - int (length (filter (\<lambda>g. pos g = 0 \<and> property g = s)
                             (take (nparticle pG) (particle pG)))))"
proof -
  assume wf: "grid_wf pG"
  let ?D = "Delete_Ghost pG"
  have ms: "mset (take (nparticle ?D) (particle ?D))
              = mset (filter (\<lambda>g. pos g \<noteq> 0) (take (nparticle pG) (particle pG)))"
    using Delete_Ghost_mset[OF wf] by simp
  have "size (mset (take (nparticle ?D) (particle ?D)))
              = size (mset (filter (\<lambda>g. pos g \<noteq> 0) (take (nparticle pG) (particle pG))))"
    using ms by simp
  then have n: "nparticle ?D = length (filter (\<lambda>g. pos g \<noteq> 0) (take (nparticle pG) (particle pG)))"
    using Delete_Ghost_wf[OF wf] by (simp add: size_filter_mset_list)
  have c: "num (grproperty ?D s)
          = num (grproperty pG s)
            - int (length (filter (\<lambda>g. pos g = 0 \<and> property g = s)
                             (take (nparticle pG) (particle pG))))" for s
  proof -
    show ?thesis
      using Delete_Ghost_loop_num[of 0 pG s] wf
      by (simp add: Delete_Ghost_def grid_wf_def size_filter_mset_list)
  qed
  from n ms c show ?thesis by blast
qed

theorem Delete_Ghost_removes_exactly_ghosts_witness:
  "grid_wf purge_grid \<and> nparticle (Delete_Ghost purge_grid) = 2 \<and>
   num (grproperty (Delete_Ghost purge_grid) 0) = num (grproperty purge_grid 0) - 3"
proof -
  have wf: "grid_wf purge_grid"
    by (simp add: grid_wf_def purge_grid_def)
  show ?thesis
    using wf Delete_Ghost_removes_exactly_ghosts[OF wf]
    by (simp add: purge_grid_def ex_grain_def)
qed

section \<open>The three integrators, slot by slot\<close>

lemma step_fst:
  "fst (exp_step cfg env c pG g) = fst (update_particle cfg env pG c g (fst (exp_dv cfg env pG c g)))"
  "fst (semimp_step cfg env c pG g) = fst (update_particle cfg env pG c g (fst (semimp_dv cfg env pG c g)))"
  "fst (fulimp_step cfg env c pG g) = fst (update_particle cfg env pG c g (fst (fulimp_dv cfg env pG c g)))"
  by (simp_all add: exp_step_def semimp_step_def fulimp_step_def split: prod.splits)

lemma step_snd:
  "snd (exp_step cfg env c pG g) =
     snd (exp_dv cfg env pG c g) @ snd (update_particle cfg env pG c g (fst (exp_dv cfg env pG c g)))"
  "snd (semimp_step cfg env c pG g) =
     snd (semimp_dv cfg env pG c g) @ snd (update_particle cfg env pG c g (fst (semimp_dv cfg env pG c g)))"
  "snd (fulimp_step cfg env c pG g) =
     snd (fulimp_dv cfg env pG c g) @ snd (update_particle cfg env pG c g (fst (fulimp_dv cfg env pG c g)))"
  by (simp_all add: exp_step_def semimp_step_def fulimp_step_def split: prod.splits)

lemma integrate_nparticle:
  "nparticle (fst (integrate_particle_exp cfg env pG)) = nparticle (Delete_Ghost pG)"
  "nparticle (fst (integrate_particle_semimp cfg env pG)) = nparticle (Delete_Ghost pG)"
  "nparticle (fst (integrate_particle_fulimp cfg env pG)) = nparticle (Delete_Ghost pG)"
  by (simp_all add: integrate_particle_exp_def integrate_particle_semimp_def
        integrate_particle_fulimp_def integrate_with_nparticle)

lemma integrate_nth:
  assumes "grid_wf pG" "i < nparticle (Delete_Ghost pG)"
  shows "particle (fst (integrate_particle_exp cfg env pG)) ! i =
           fst (update_particle cfg env pG (cell1_of pG) (particle (Delete_Ghost pG) ! i)
                  (fst (exp_dv cfg env pG (cell1_of pG) (particle (Delete_Ghost pG) ! i))))"
    and "particle (fst (integrate_particle_semimp cfg env pG)) ! i =
           fst (update_particle cfg env pG (cell1_of pG) (particle (Delete_Ghost pG) ! i)
                  (fst (semimp_dv cfg env pG (cell1_of pG) (particle (Delete_Ghost pG) ! i))))"
    and "particle (fst (integrate_particle_fulimp cfg env pG)) ! i =
           fst (update_particle cfg env pG (cell1_of pG) (particle (Delete_Ghost pG) ! i)
                  (fst (fulimp_dv cfg env pG (cell1_of pG) (particle (Delete_Ghost pG) ! i))))"
  unfolding integrate_particle_exp_def integrate_particle_semimp_def integrate_particle_fulimp_def
  using integrate_with_nth[of "exp_step cfg env", OF same_setup_exp_step assms]
        integrate_with_nth[of "semimp_step cfg env", OF same_setup_semimp_step assms]
        integrate_with_nth[of "fulimp_step cfg env", OF same_setup_fulimp_step assms]
  by (simp_all add: step_fst)

lemma update_particle_frame_kept:
  assumes wf: "grid_wf pG"
    and n: "nparticle pG' = nparticle (Delete_Ghost pG)"
    and nth: "\<And>i. i < nparticle (Delete_Ghost pG) \<Longrightarrow>
               \<exists>dv. particle pG' ! i =
                 fst (update_particle cfg env pG (cell1_of pG) (particle (Delete_Ghost pG) ! i) dv)"
  shows "frame_kept cfg pG pG'"
  unfolding frame_kept_def
proof (intro conjI allI impI)
  show "nparticle pG' = nparticle (Delete_Ghost pG)" by (rule n)
next
  fix i assume "i < nparticle pG'"
  then have i: "i < nparticle (Delete_Ghost pG)" using n by simp
  from nth[OF i] obtain dv where
    e: "particle pG' ! i = fst (update_particle cfg env pG (cell1_of pG) (particle (Delete_Ghost pG) ! i) dv)"
    by blast
  show "particle (Delete_Ghost pG) ! i \<in> set (take (nparticle pG) (particle pG))"
    by (rule Delete_Ghost_survivor(1)[OF wf i])
  show "property (particle pG' ! i) = property (particle (Delete_Ghost pG) ! i)"
    unfolding e by (rule update_particle_frame(1))
  show "pos (particle pG' ! i) = pos (particle (Delete_Ghost pG) ! i) \<or> pos (particle pG' ! i) = 10"
    unfolding e by (subst (1 2) update_particle_pos) simp
  show "Grain.more (particle pG' ! i) = Grain.more (particle (Delete_Ghost pG) ! i)"
    unfolding e by (rule update_particle_frame(2))
  show "shift (particle pG' ! i) = shift (particle (Delete_Ghost pG) ! i)" if "\<not> FARGO cfg"
    unfolding e by (rule update_particle_frame(3)[OF that])
qed

section \<open>The concrete inputs, evaluated\<close>

lemma Delete_Ghost_purge_grid:
  "nparticle (Delete_Ghost purge_grid) = 2"
proof -
  have wf: "grid_wf purge_grid" by (simp add: grid_wf_def purge_grid_def)
  have "size (mset (take (nparticle (Delete_Ghost purge_grid)) (particle (Delete_Ghost purge_grid))))
          = size (filter_mset (\<lambda>g. pos g \<noteq> 0)
                    (mset (take (nparticle purge_grid) (particle purge_grid))))"
    using Delete_Ghost_mset[OF wf] by simp
  moreover have "size (filter_mset (\<lambda>g. pos g \<noteq> 0)
                    (mset (take (nparticle purge_grid) (particle purge_grid)))) = 2"
    by (simp add: purge_grid_def ex_grain_def)
  ultimately show ?thesis using Delete_Ghost_wf[OF wf] by simp
qed

lemma Delete_Ghost_no_ghost:
  "nparticle pG = 1 \<Longrightarrow> pos (particle pG ! 0) \<noteq> 0 \<Longrightarrow> Delete_Ghost pG = pG"
  by (simp add: Delete_Ghost_def Delete_Ghost_loop_live Delete_Ghost_loop_done)

lemma Delete_Ghost_shear2d_grid: "Delete_Ghost shear2d_grid = shear2d_grid"
  by (rule Delete_Ghost_no_ghost) (simp_all add: shear2d_grid_def)

lemma Delete_Ghost_fargo2d_grid: "Delete_Ghost fargo2d_grid = fargo2d_grid"
  by (rule Delete_Ghost_no_ghost) (simp_all add: fargo2d_grid_def)

lemma Get_Drag_rest_env:
  "Get_Drag rest_env pG ty px1 px2 px3 pv1 pv2 pv3 c =
     (\<lparr>Vector.x1 = - pv1, x2 = - pv2, x3 = - pv3\<rparr>, 1, [])"
  by (simp add: Get_Drag_def rest_env_def)

lemma shear2d_exp_dv:
  "fst (exp_dv shear_cfg rest_env shear2d_grid c (particle shear2d_grid ! 0)) = (- 1 / 2, 0, - 1 / 2)"
  by (simp add: exp_dv_def predictor_half_def Get_Drag_rest_env Get_Force_def SQR_def
        shear_cfg_def shear2d_grid_def Let_def)

lemma fargo2d_exp_dv:
  "fst (exp_dv fargo_cfg rest_env fargo2d_grid c (particle fargo2d_grid ! 0)) = (0, - 3 / 4, 0)"
  by (simp add: exp_dv_def predictor_half_def Get_Drag_rest_env Get_Force_def SQR_def
        fargo_cfg_def fargo2d_grid_def Let_def)

section \<open>Collapsed axes\<close>

text \<open>
  Claim C1 as stated fails: on a collapsed axis the velocity is not kept. In the 2D
  shearing sheet (third axis collapsed) the explicit integrator takes a grain with
  velocity (1, 0, 0) to one with v3 = -1/2: the Coriolis force and the drag act on v3
  whatever Nx3 is.
\<close>

theorem collapsed_velocity_counterexample:
  "Nx3 shear2d_grid = 1 \<and>
   v3 (particle shear2d_grid ! 0) = 0 \<and>
   v3 (particle (fst (integrate_particle_exp shear_cfg rest_env shear2d_grid)) ! 0) = - 1 / 2"
proof -
  have wf: "grid_wf shear2d_grid" by (simp add: grid_wf_def shear2d_grid_def)
  have i: "0 < nparticle (Delete_Ghost shear2d_grid)"
    by (simp add: Delete_Ghost_shear2d_grid) (simp add: shear2d_grid_def)
  have "v3 (particle (fst (integrate_particle_exp shear_cfg rest_env shear2d_grid)) ! 0) = - 1 / 2"
    unfolding integrate_nth(1)[OF wf i] Delete_Ghost_shear2d_grid shear2d_exp_dv
    by (simp add: update_particle_v) (simp add: shear2d_grid_def)
  then show ?thesis by (simp add: shear2d_grid_def)
qed

lemma update_particle_v_gen:
  "v1 (fst (update_particle cfg env pG c g dv)) = v1 g + fst dv"
  "v2 (fst (update_particle cfg env pG c g dv)) = v2 g + fst (snd dv)"
  "v3 (fst (update_particle cfg env pG c g dv)) = v3 g + snd (snd dv)"
  by (cases dv, simp add: update_particle_v)+

lemma update_particle_x_collapsed:
  "Nx1 pG \<le> 1 \<Longrightarrow> Grain.x1 (fst (update_particle cfg env pG c g dv)) = Grain.x1 g"
  "Nx2 pG \<le> 1 \<Longrightarrow> Grain.x2 (fst (update_particle cfg env pG c g dv)) = Grain.x2 g"
  "Nx3 pG \<le> 1 \<Longrightarrow> Grain.x3 (fst (update_particle cfg env pG c g dv)) = Grain.x3 g"
  by (cases dv, simp add: update_particle_x)+

lemma run_collapsed_kept:
  assumes n: "nparticle pG' = nparticle (Delete_Ghost pG)"
    and nth: "\<And>i. i < nparticle (Delete_Ghost pG) \<Longrightarrow>
               particle pG' ! i =
                 fst (update_particle cfg env pG (cell1_of pG) (particle (Delete_Ghost pG) ! i)
                        (fst (dv pG (cell1_of pG) (particle (Delete_Ghost pG) ! i))))"
  shows "collapsed_kept pG pG'"
  unfolding collapsed_kept_def using n nth by (simp add: update_particle_x_collapsed)

lemma run_velocity_advanced:
  assumes n: "nparticle pG' = nparticle (Delete_Ghost pG)"
    and nth: "\<And>i. i < nparticle (Delete_Ghost pG) \<Longrightarrow>
               particle pG' ! i =
                 fst (update_particle cfg env pG (cell1_of pG) (particle (Delete_Ghost pG) ! i)
                        (fst (dv pG (cell1_of pG) (particle (Delete_Ghost pG) ! i))))"
  shows "velocity_advanced dv pG pG'"
  unfolding velocity_advanced_def using n nth by (simp add: update_particle_v_gen)

lemma run_tagged_on_x1_x3:
  assumes fargo: "FARGO cfg"
    and n: "nparticle pG' = nparticle (Delete_Ghost pG)"
    and nth: "\<And>i. i < nparticle (Delete_Ghost pG) \<Longrightarrow>
               particle pG' ! i =
                 fst (update_particle cfg env pG (cell1_of pG) (particle (Delete_Ghost pG) ! i)
                        (fst (dv pG (cell1_of pG) (particle (Delete_Ghost pG) ! i))))"
  shows "tagged_on_x1_x3 cfg pG pG'"
  unfolding tagged_on_x1_x3_def
proof (intro allI impI)
  fix i assume "i < nparticle pG'"
  then have i: "i < nparticle (Delete_Ghost pG)" using n by simp
  let ?g = "particle (Delete_Ghost pG) ! i"
  let ?u = "update_particle cfg env pG (cell1_of pG) ?g (fst (dv pG (cell1_of pG) ?g))"
  have "pos (fst ?u) = (if crossing cfg (fst ?u) then 10 else pos ?g)"
    by (rule update_particle_pos)
  then show "pos (particle pG' ! i) =
          (if Grain.x1 (particle pG' ! i) \<ge> x1upar cfg \<or> Grain.x1 (particle pG' ! i) < x1lpar cfg \<or>
              Grain.x3 (particle pG' ! i) \<ge> x3upar cfg \<or> Grain.x3 (particle pG' ! i) < x3lpar cfg
           then 10 else pos ?g)"
    unfolding nth[OF i] using fargo by (simp add: crossing_def)
qed

text \<open>
  Claim C1, amended. For every grain and every collapsed axis (Ni at most 1) the
  position component after a call of any of the three integrators is the one before the
  call. The velocity is advanced on every axis, collapsed or not: each component after
  the call is the one before plus the integrator's velocity update for that grain.
\<close>

theorem collapsed_position_kept:
  "grid_wf pG \<Longrightarrow>
   collapsed_kept pG (fst (integrate_particle_exp cfg env pG)) \<and>
   velocity_advanced (exp_dv cfg env) pG (fst (integrate_particle_exp cfg env pG)) \<and>
   collapsed_kept pG (fst (integrate_particle_semimp cfg env pG)) \<and>
   velocity_advanced (semimp_dv cfg env) pG (fst (integrate_particle_semimp cfg env pG)) \<and>
   collapsed_kept pG (fst (integrate_particle_fulimp cfg env pG)) \<and>
   velocity_advanced (fulimp_dv cfg env) pG (fst (integrate_particle_fulimp cfg env pG))"
proof -
  assume wf: "grid_wf pG"
  note e = run_collapsed_kept[where dv = "exp_dv cfg env", OF integrate_nparticle(1) integrate_nth(1)[OF wf]]
  note s = run_collapsed_kept[where dv = "semimp_dv cfg env", OF integrate_nparticle(2) integrate_nth(2)[OF wf]]
  note f = run_collapsed_kept[where dv = "fulimp_dv cfg env", OF integrate_nparticle(3) integrate_nth(3)[OF wf]]
  note e' = run_velocity_advanced[where dv = "exp_dv cfg env", OF integrate_nparticle(1) integrate_nth(1)[OF wf]]
  note s' = run_velocity_advanced[where dv = "semimp_dv cfg env", OF integrate_nparticle(2) integrate_nth(2)[OF wf]]
  note f' = run_velocity_advanced[where dv = "fulimp_dv cfg env", OF integrate_nparticle(3) integrate_nth(3)[OF wf]]
  from e s f e' s' f' show ?thesis by blast
qed

theorem collapsed_position_kept_witness:
  "grid_wf shear2d_grid \<and> Nx3 shear2d_grid \<le> 1 \<and>
   0 < nparticle (fst (integrate_particle_exp shear_cfg rest_env shear2d_grid)) \<and>
   collapsed_kept shear2d_grid (fst (integrate_particle_exp shear_cfg rest_env shear2d_grid)) \<and>
   Grain.x3 (particle (fst (integrate_particle_exp shear_cfg rest_env shear2d_grid)) ! 0) = 0 \<and>
   velocity_advanced (fulimp_dv shear_cfg rest_env) shear2d_grid
     (fst (integrate_particle_fulimp shear_cfg rest_env shear2d_grid))"
proof -
  have wf: "grid_wf shear2d_grid" by (simp add: grid_wf_def shear2d_grid_def)
  have n: "0 < nparticle (fst (integrate_particle_exp shear_cfg rest_env shear2d_grid))"
    by (simp add: integrate_nparticle Delete_Ghost_shear2d_grid) (simp add: shear2d_grid_def)
  have c: "collapsed_kept shear2d_grid (fst (integrate_particle_exp shear_cfg rest_env shear2d_grid))"
    using collapsed_position_kept[OF wf, of shear_cfg rest_env] by blast
  have "Grain.x3 (particle (fst (integrate_particle_exp shear_cfg rest_env shear2d_grid)) ! 0)
          = Grain.x3 (particle (Delete_Ghost shear2d_grid) ! 0)"
    using c n unfolding collapsed_kept_def by (simp add: shear2d_grid_def)
  then have x: "Grain.x3 (particle (fst (integrate_particle_exp shear_cfg rest_env shear2d_grid)) ! 0) = 0"
    by (simp add: Delete_Ghost_shear2d_grid) (simp add: shear2d_grid_def)
  show ?thesis
    using wf n c x collapsed_position_kept[OF wf, of shear_cfg rest_env]
    by (simp add: shear2d_grid_def)
qed

section \<open>Tagging at the boundary\<close>

text \<open>
  Claim C2 as stated fails in the 2D shearing sheet with FARGO: there x2 is an active
  axis and is not the azimuthal one, yet a grain whose new x2 has left [-1, 1) keeps its
  tag 1. The test under FARGO leaves out x2 whatever Nx3 is.
\<close>

theorem fargo_2d_x2_counterexample:
  "FARGO fargo_cfg \<and> SHEARING_BOX fargo_cfg \<and> Nx3 fargo2d_grid = 1 \<and> 1 < Nx2 fargo2d_grid \<and>
   x2lpar fargo_cfg \<le> Grain.x2 (particle fargo2d_grid ! 0) \<and>
   Grain.x2 (particle fargo2d_grid ! 0) < x2upar fargo_cfg \<and>
   x2upar fargo_cfg
     \<le> Grain.x2 (particle (fst (integrate_particle_exp fargo_cfg rest_env fargo2d_grid)) ! 0) \<and>
   pos (particle (fst (integrate_particle_exp fargo_cfg rest_env fargo2d_grid)) ! 0) = 1"
proof -
  have wf: "grid_wf fargo2d_grid" by (simp add: grid_wf_def fargo2d_grid_def)
  have i: "0 < nparticle (Delete_Ghost fargo2d_grid)"
    by (simp add: Delete_Ghost_fargo2d_grid) (simp add: fargo2d_grid_def)
  let ?g' = "particle (fst (integrate_particle_exp fargo_cfg rest_env fargo2d_grid)) ! 0"
  have x: "Grain.x2 ?g' = 25 / 16"
    unfolding integrate_nth(1)[OF wf i] Delete_Ghost_fargo2d_grid fargo2d_exp_dv
    by (simp add: update_particle_x) (simp add: fargo2d_grid_def)
  have p: "pos ?g' = 1"
    unfolding integrate_nth(1)[OF wf i] Delete_Ghost_fargo2d_grid fargo2d_exp_dv
    by (subst update_particle_pos)
       (simp add: crossing_def update_particle_x, simp add: fargo2d_grid_def fargo_cfg_def)
  show ?thesis using x p by (simp add: fargo2d_grid_def fargo_cfg_def)
qed

text \<open>
  Claim C2, amended. In FARGO mode, for every grain processed by any of the three
  integrators, the exempt axis is x2, in the 3D and in the 2D shearing sheet alike: the
  tag becomes 10 exactly when the updated x1 or the updated x3 is outside its half-open
  interval [lower, upper), and is the entry tag otherwise, wherever the updated x2 is.
\<close>

theorem fargo_tagging_exempts_x2:
  "grid_wf pG \<Longrightarrow> FARGO cfg \<Longrightarrow>
   tagged_on_x1_x3 cfg pG (fst (integrate_particle_exp cfg env pG)) \<and>
   tagged_on_x1_x3 cfg pG (fst (integrate_particle_semimp cfg env pG)) \<and>
   tagged_on_x1_x3 cfg pG (fst (integrate_particle_fulimp cfg env pG))"
proof -
  assume wf: "grid_wf pG" and fargo: "FARGO cfg"
  note e = run_tagged_on_x1_x3[where dv = "exp_dv cfg env", OF fargo integrate_nparticle(1) integrate_nth(1)[OF wf]]
  note s = run_tagged_on_x1_x3[where dv = "semimp_dv cfg env", OF fargo integrate_nparticle(2) integrate_nth(2)[OF wf]]
  note f = run_tagged_on_x1_x3[where dv = "fulimp_dv cfg env", OF fargo integrate_nparticle(3) integrate_nth(3)[OF wf]]
  from e s f show ?thesis by blast
qed

theorem fargo_tagging_exempts_x2_witness:
  "grid_wf fargo2d_grid \<and> FARGO fargo_cfg \<and>
   0 < nparticle (fst (integrate_particle_exp fargo_cfg rest_env fargo2d_grid)) \<and>
   tagged_on_x1_x3 fargo_cfg fargo2d_grid
     (fst (integrate_particle_exp fargo_cfg rest_env fargo2d_grid)) \<and>
   tagged_on_x1_x3 fargo_cfg fargo2d_grid
     (fst (integrate_particle_semimp fargo_cfg rest_env fargo2d_grid)) \<and>
   tagged_on_x1_x3 fargo_cfg fargo2d_grid
     (fst (integrate_particle_fulimp fargo_cfg rest_env fargo2d_grid))"
proof -
  have wf: "grid_wf fargo2d_grid" by (simp add: grid_wf_def fargo2d_grid_def)
  have fargo: "FARGO fargo_cfg" by (simp add: fargo_cfg_def)
  have n: "0 < nparticle (fst (integrate_particle_exp fargo_cfg rest_env fargo2d_grid))"
    by (simp add: integrate_nparticle Delete_Ghost_fargo2d_grid) (simp add: fargo2d_grid_def)
  show ?thesis
    using wf fargo n fargo_tagging_exempts_x2[OF wf fargo, of rest_env] by simp
qed

section \<open>What an integrator leaves alone\<close>

text \<open>
  Claim C10. For every grain in the array when any of the three integrators returns,
  the species index is the one on entry and the tag is the entry tag or 10 (no other
  value is ever assigned); the shift is written only under FARGO; and every further
  field is kept. So apart from position, velocity, the tag 10 and the FARGO shift every
  field of every surviving grain is preserved.
\<close>

theorem integrators_keep_frame:
  "grid_wf pG \<Longrightarrow>
   frame_kept cfg pG (fst (integrate_particle_exp cfg env pG)) \<and>
   frame_kept cfg pG (fst (integrate_particle_semimp cfg env pG)) \<and>
   frame_kept cfg pG (fst (integrate_particle_fulimp cfg env pG))"
proof -
  assume wf: "grid_wf pG"
  have e: "frame_kept cfg pG (fst (integrate_particle_exp cfg env pG))"
    by (rule update_particle_frame_kept[OF wf integrate_nparticle(1)])
       (use integrate_nth(1)[OF wf] in blast)
  have s: "frame_kept cfg pG (fst (integrate_particle_semimp cfg env pG))"
    by (rule update_particle_frame_kept[OF wf integrate_nparticle(2)])
       (use integrate_nth(2)[OF wf] in blast)
  have f: "frame_kept cfg pG (fst (integrate_particle_fulimp cfg env pG))"
    by (rule update_particle_frame_kept[OF wf integrate_nparticle(3)])
       (use integrate_nth(3)[OF wf] in blast)
  from e s f show ?thesis by blast
qed

theorem integrators_keep_frame_witness:
  "grid_wf purge_grid \<and> \<not> FARGO shear_cfg \<and>
   nparticle (fst (integrate_particle_exp shear_cfg rest_env purge_grid)) = 2 \<and>
   frame_kept shear_cfg purge_grid (fst (integrate_particle_exp shear_cfg rest_env purge_grid)) \<and>
   frame_kept shear_cfg purge_grid (fst (integrate_particle_semimp shear_cfg rest_env purge_grid)) \<and>
   frame_kept shear_cfg purge_grid (fst (integrate_particle_fulimp shear_cfg rest_env purge_grid))"
proof -
  have wf: "grid_wf purge_grid" by (simp add: grid_wf_def purge_grid_def)
  have n: "nparticle (fst (integrate_particle_exp shear_cfg rest_env purge_grid)) = 2"
    by (simp add: integrate_nparticle Delete_Ghost_purge_grid)
  show ?thesis
    using wf n integrators_keep_frame[OF wf, of shear_cfg rest_env]
    by (simp add: shear_cfg_def)
qed

lemma integrate_last_event:
  assumes "grid_wf pG"
  shows "last (snd (integrate_particle_exp cfg env pG)) = Ath_pout 0 (my_id pG) (nparticle (Delete_Ghost pG))"
    and "last (snd (integrate_particle_semimp cfg env pG)) = Ath_pout 0 (my_id pG) (nparticle (Delete_Ghost pG))"
    and "last (snd (integrate_particle_fulimp cfg env pG)) = Ath_pout 0 (my_id pG) (nparticle (Delete_Ghost pG))"
  unfolding integrate_particle_exp_def integrate_particle_semimp_def integrate_particle_fulimp_def
  using integrate_with_events[of "exp_step cfg env", OF same_setup_exp_step assms]
        integrate_with_events[of "semimp_step cfg env", OF same_setup_semimp_step assms]
        integrate_with_events[of "fulimp_step cfg env", OF same_setup_fulimp_step assms]
  by simp_all

lemma fulimp_dv_fst:
  "fulimp_forces cfg env pG c g = (fc, ts11, fp, ts12, ev) \<Longrightarrow>
   fst (fulimp_dv cfg env pG c g) =
     fulimp_velocity_update cfg pG (fulimp_total_force cfg pG fc fp ts11) ts11 ts12"
  by (simp add: fulimp_dv_def)

lemma fulimp_forces_ts:
  "fulimp_forces cfg env pG c g = (fc, ts11, fp, ts12, ev) \<Longrightarrow>
   ts11 = fst (snd (Get_Drag env pG (property g) (Grain.x1 g) (Grain.x2 g) (Grain.x3 g)
                      (v1 g) (v2 g) (v3 g) c)) \<and>
   ts12 = fst (snd (Get_Drag env pG (property g) (fst (predictor_full cfg pG g))
                      (fst (snd (predictor_full cfg pG g))) (snd (snd (predictor_full cfg pG g)))
                      (v1 g) (v2 g) (v3 g) c))"
  by (auto simp add: fulimp_forces_def Let_def split: prod.splits)

lemma fulimp_total_force_3d:
  "SHEARING_BOX cfg \<Longrightarrow> 1 < Nx3 pG \<Longrightarrow>
   fulimp_total_force cfg pG fc fp ts11 =
     \<lparr>Vector.x1 = 1 / 2 * (Vector.x1 fc + (1 + dt pG * ts11) * Vector.x1 fp)
                   - Omega cfg * dt pG * Vector.x2 fp,
      x2 = 1 / 2 * (Vector.x2 fc + (1 + dt pG * ts11) * Vector.x2 fp)
             + (if FARGO cfg then 1 / 4 * (Omega cfg * dt pG) * Vector.x1 fp
                else Omega cfg * dt pG * Vector.x1 fp),
      x3 = 1 / 2 * (Vector.x3 fc + (1 + dt pG * ts11) * Vector.x3 fp)\<rparr>"
  by (simp add: fulimp_total_force_def Let_def)

lemma fulimp_velocity_update_3d:
  assumes "SHEARING_BOX cfg" "1 < Nx3 pG"
    and "w = Omega cfg * dt pG"
    and "D = 1 + 1 / 2 * dt pG * (ts11 + ts12 + dt pG * ts11 * ts12)"
    and "B = w * (- 2 - (ts11 + ts12) * dt pG)"
    and "A = (if FARGO cfg then D - 1 / 2 * w\<^sup>2 else D - 2 * w\<^sup>2)"
    and "C = (if FARGO cfg then - (1 / 4) * B else - B)"
    and "Det = A\<^sup>2 - B * C"
  shows "fulimp_velocity_update cfg pG F ts11 ts12 =
           (dt pG * (A * Vector.x1 F - B * Vector.x2 F) / Det,
            dt pG * (- C * Vector.x1 F + A * Vector.x2 F) / Det,
            dt pG * Vector.x3 F / D)"
  using assms
  by (simp add: fulimp_velocity_update_def fulimp_matrix_def Let_def SQR_def power2_eq_square
        mult.commute)

lemma Delete_Ghost_shear3d_grid: "Delete_Ghost shear3d_grid = shear3d_grid"
  by (rule Delete_Ghost_no_ghost) (simp_all add: shear3d_grid_def shear2d_grid_def)

lemma Delete_Ghost_det_grid: "Delete_Ghost det_grid = det_grid"
  by (rule Delete_Ghost_no_ghost) (simp_all add: det_grid_def shear3d_grid_def shear2d_grid_def)

lemma fargo_2d_forces:
  "fulimp_forces fargo_cfg rest_env shear2d_grid c (particle shear2d_grid ! 0) =
     (\<lparr>Vector.x1 = - 1, x2 = 0, x3 = - 2\<rparr>, 1, \<lparr>Vector.x1 = 1 / 2, x2 = 0, x3 = - 2\<rparr>, 1, [])"
  by (simp add: fulimp_forces_def predictor_full_def Get_Drag_rest_env Get_Force_def SQR_def
        fargo_cfg_def shear2d_grid_def Let_def)

lemma shear_3d_forces:
  "fulimp_forces shear_cfg rest_env shear3d_grid c (particle shear3d_grid ! 0) =
     (\<lparr>Vector.x1 = - 1, x2 = - 2, x3 = 0\<rparr>, 1, \<lparr>Vector.x1 = 1 / 2, x2 = - 2, x3 = 0\<rparr>, 1, [])"
  by (simp add: fulimp_forces_def predictor_full_def Get_Drag_rest_env Get_Force_def SQR_def
        shear_cfg_def shear3d_grid_def shear2d_grid_def Let_def)

lemma det_forces_ts:
  "fst (snd (fulimp_forces det_cfg det_env det_grid c (particle det_grid ! 0))) = - 1"
  "fst (snd (snd (snd (fulimp_forces det_cfg det_env det_grid c (particle det_grid ! 0))))) = - 1"
  by (simp_all add: fulimp_forces_def predictor_full_def Get_Drag_def det_env_def rest_env_def
        Let_def split: prod.splits)

lemma shear_2d_forces:
  "fulimp_forces shear_cfg rest_env shear2d_grid c (particle shear2d_grid ! 0) =
     (\<lparr>Vector.x1 = - 1, x2 = 0, x3 = - 2\<rparr>, 1, \<lparr>Vector.x1 = 1 / 2, x2 = 0, x3 = - 2\<rparr>, 1, [])"
  by (simp add: fulimp_forces_def predictor_full_def Get_Drag_rest_env Get_Force_def SQR_def
        shear_cfg_def shear2d_grid_def Let_def)

lemma fulimp_Det_matrix:
  "fulimp_matrix cfg pG ts11 ts12 = (A, B, C, D) \<Longrightarrow> fulimp_Det cfg pG ts11 ts12 = A * A - B * C"
  by (simp add: fulimp_Det_def SQR_def)

lemma fulimp_velocity_update_Det:
  assumes "SHEARING_BOX cfg" and "fulimp_matrix cfg pG ts11 ts12 = (A, B, C, D)"
  shows "fulimp_velocity_update cfg pG F ts11 ts12 =
           (if 1 < Nx3 pG then
              (dt pG * (1 / fulimp_Det cfg pG ts11 ts12) * (Vector.x1 F * A - Vector.x2 F * B),
               dt pG * (1 / fulimp_Det cfg pG ts11 ts12) * (- Vector.x1 F * C + Vector.x2 F * A),
               dt pG * Vector.x3 F / D)
            else
              (dt pG * (1 / fulimp_Det cfg pG ts11 ts12) * (Vector.x1 F * A - Vector.x3 F * B),
               dt pG * Vector.x2 F / D,
               dt pG * (1 / fulimp_Det cfg pG ts11 ts12) * (- Vector.x1 F * C + Vector.x3 F * A)))"
  by (simp add: fulimp_velocity_update_def fulimp_Det_def assms Let_def)

lemma fulimp_Det_pos:
  assumes "0 \<le> dt pG" "0 \<le> ts11" "0 \<le> ts12"
  shows "0 < fulimp_Det cfg pG ts11 ts12"
proof -
  define D where "D = 1 + 1 / 2 * dt pG * (ts11 + ts12 + dt pG * ts11 * ts12)"
  define w where "w = Omega cfg * dt pG"
  define B where "B = w * (- 2 - (ts11 + ts12) * dt pG)"
  define A where "A = (if FARGO cfg then D - 1 / 2 * (w * w) else D - 2 * (w * w))"
  have s: "0 \<le> (ts11 + ts12) * dt pG" using assms by simp
  have "0 \<le> dt pG * ts11 * ts12" using assms by simp
  then have "0 \<le> dt pG * (ts11 + ts12 + dt pG * ts11 * ts12)" using assms by simp
  then have D1: "1 \<le> D" unfolding D_def by simp
  have det: "fulimp_Det cfg pG ts11 ts12 = (if FARGO cfg then A * A + B * B / 4 else A * A + B * B)"
    by (simp add: fulimp_Det_def fulimp_matrix_def Let_def SQR_def D_def w_def B_def A_def)
  have pos: "0 < A * A + B * B / 4 \<and> 0 < A * A + B * B"
  proof (cases "w = 0")
    case True
    then have "A = D" by (simp add: A_def)
    then have "0 < A * A" using D1 by simp
    moreover have "0 \<le> B * B" by simp
    ultimately show ?thesis by (simp add: add_pos_nonneg)
  next
    case False
    have "- 2 - (ts11 + ts12) * dt pG < 0" using s by simp
    then have "B \<noteq> 0" using False by (simp add: B_def)
    then have "0 < B * B" by (simp add: zero_less_mult_iff) (metis not_less_iff_gr_or_eq)
    moreover have "0 \<le> A * A" by simp
    ultimately show ?thesis by (simp add: add_nonneg_pos)
  qed
  show ?thesis unfolding det using pos by simp
qed

section \<open>The fully implicit integrator in the shearing sheet\<close>

text \<open>
  Claim C3 as stated fails: the integrator has no test on the determinant and no way to
  abort. With orbital frequency 1/2, time step 1 and both stopping frequencies -1 the
  determinant of the grain is 0, and the integrator still goes through the grain and
  reaches its final report with the grain in the array. (The quotient 1/Det itself is
  outside the exact-arithmetic reading at this input, so nothing is stated about the
  velocity there.)
\<close>

theorem no_determinant_test_counterexample:
  "SHEARING_BOX det_cfg \<and>
   fst (snd (fulimp_forces det_cfg det_env det_grid (cell1_of det_grid) (particle det_grid ! 0))) = - 1 \<and>
   fst (snd (snd (snd (fulimp_forces det_cfg det_env det_grid (cell1_of det_grid)
                         (particle det_grid ! 0))))) = - 1 \<and>
   fulimp_Det det_cfg det_grid (- 1) (- 1) = 0 \<and>
   nparticle (fst (integrate_particle_fulimp det_cfg det_env det_grid)) = 1 \<and>
   last (snd (integrate_particle_fulimp det_cfg det_env det_grid)) = Ath_pout 0 0 1"
proof -
  have wf: "grid_wf det_grid"
    by (simp add: grid_wf_def det_grid_def shear3d_grid_def shear2d_grid_def)
  have d: "fulimp_Det det_cfg det_grid (- 1) (- 1) = 0"
    by (simp add: fulimp_Det_def fulimp_matrix_def Let_def SQR_def det_cfg_def shear_cfg_def
          det_grid_def shear3d_grid_def shear2d_grid_def)
  have n: "nparticle (Delete_Ghost det_grid) = 1" "my_id det_grid = 0"
    by (simp_all add: Delete_Ghost_det_grid) (simp_all add: det_grid_def shear3d_grid_def shear2d_grid_def)
  show ?thesis
    using d n by (simp add: det_forces_ts integrate_nparticle integrate_last_event(3)[OF wf])
                 (simp add: det_cfg_def shear_cfg_def)
qed

text \<open>
  Claim C3, amended. The shearing-sheet fully implicit integrator does not test the
  determinant and does not abort: for every grain it computes Det1 = 1/Det with
  Det = A*A - B*C, where A, B, C, D are built from the stopping frequencies s1, s2 that
  the two drag evaluations of that grain return, and it runs to its final report. For the
  grain in slot i the new velocity is the old one plus dt Det1 (F1 A - F2 B) and
  dt Det1 (-F1 C + F2 A) in the rotation plane (components 1, 2 when Nx3 > 1 and 1, 3
  otherwise) and dt F/D on the remaining axis, F the total force of the grain. Whenever
  the time step and both stopping frequencies are not negative, Det is positive, so for
  such grains this velocity update is computed under Det > 0.
\<close>

theorem determinant_positive:
  assumes "grid_wf pG" and "i < nparticle (Delete_Ghost pG)" and "SHEARING_BOX cfg"
    and "g = particle (Delete_Ghost pG) ! i"
    and "g' = particle (fst (integrate_particle_fulimp cfg env pG)) ! i"
    and "fulimp_forces cfg env pG (cell1_of pG) g = (fc, s1, fp, s2, ev)"
    and "F = fulimp_total_force cfg pG fc fp s1"
    and "fulimp_matrix cfg pG s1 s2 = (A, B, C, D)"
    and "Det = fulimp_Det cfg pG s1 s2"
  shows "Det = A * A - B * C \<and>
         (1 < Nx3 pG \<longrightarrow>
            v1 g' = v1 g + dt pG * (1 / Det) * (Vector.x1 F * A - Vector.x2 F * B) \<and>
            v2 g' = v2 g + dt pG * (1 / Det) * (- Vector.x1 F * C + Vector.x2 F * A) \<and>
            v3 g' = v3 g + dt pG * Vector.x3 F / D) \<and>
         (Nx3 pG \<le> 1 \<longrightarrow>
            v1 g' = v1 g + dt pG * (1 / Det) * (Vector.x1 F * A - Vector.x3 F * B) \<and>
            v2 g' = v2 g + dt pG * Vector.x2 F / D \<and>
            v3 g' = v3 g + dt pG * (1 / Det) * (- Vector.x1 F * C + Vector.x3 F * A)) \<and>
         (0 \<le> dt pG \<and> 0 \<le> s1 \<and> 0 \<le> s2 \<longrightarrow> 0 < Det) \<and>
         nparticle (fst (integrate_particle_fulimp cfg env pG)) = nparticle (Delete_Ghost pG) \<and>
         last (snd (integrate_particle_fulimp cfg env pG))
           = Ath_pout 0 (my_id pG) (nparticle (Delete_Ghost pG))"
proof -
  have d: "Det = A * A - B * C"
    unfolding assms(9) by (rule fulimp_Det_matrix[OF assms(8)])
  have dv: "fst (fulimp_dv cfg env pG (cell1_of pG) g) =
              (if 1 < Nx3 pG then
                 (dt pG * (1 / Det) * (Vector.x1 F * A - Vector.x2 F * B),
                  dt pG * (1 / Det) * (- Vector.x1 F * C + Vector.x2 F * A),
                  dt pG * Vector.x3 F / D)
               else
                 (dt pG * (1 / Det) * (Vector.x1 F * A - Vector.x3 F * B),
                  dt pG * Vector.x2 F / D,
                  dt pG * (1 / Det) * (- Vector.x1 F * C + Vector.x3 F * A)))"
    unfolding fulimp_dv_fst[OF assms(6)] assms(7) assms(9)
    by (rule fulimp_velocity_update_Det[OF assms(3,8)])
  have g': "g' = fst (update_particle cfg env pG (cell1_of pG) g (fst (fulimp_dv cfg env pG (cell1_of pG) g)))"
    unfolding assms(4,5) by (rule integrate_nth(3)[OF assms(1,2)])
  have v: "(1 < Nx3 pG \<longrightarrow>
            v1 g' = v1 g + dt pG * (1 / Det) * (Vector.x1 F * A - Vector.x2 F * B) \<and>
            v2 g' = v2 g + dt pG * (1 / Det) * (- Vector.x1 F * C + Vector.x2 F * A) \<and>
            v3 g' = v3 g + dt pG * Vector.x3 F / D) \<and>
         (Nx3 pG \<le> 1 \<longrightarrow>
            v1 g' = v1 g + dt pG * (1 / Det) * (Vector.x1 F * A - Vector.x3 F * B) \<and>
            v2 g' = v2 g + dt pG * Vector.x2 F / D \<and>
            v3 g' = v3 g + dt pG * (1 / Det) * (- Vector.x1 F * C + Vector.x3 F * A))"
    unfolding g' dv by (simp add: update_particle_v)
  have p: "0 \<le> dt pG \<and> 0 \<le> s1 \<and> 0 \<le> s2 \<longrightarrow> 0 < Det"
    unfolding assms(9) by (simp add: fulimp_Det_pos)
  have n: "nparticle (fst (integrate_particle_fulimp cfg env pG)) = nparticle (Delete_Ghost pG)"
    by (simp add: integrate_nparticle)
  show ?thesis
    using d v p n integrate_last_event(3)[OF assms(1), of cfg env] by blast
qed

theorem determinant_positive_witness:
  "grid_wf shear2d_grid \<and> 0 < nparticle (Delete_Ghost shear2d_grid) \<and> SHEARING_BOX shear_cfg \<and>
   Nx3 shear2d_grid \<le> 1 \<and> 1 < Nx3 shear3d_grid \<and>
   grid_wf shear3d_grid \<and> 0 < nparticle (Delete_Ghost shear3d_grid) \<and>
   fulimp_forces shear_cfg rest_env shear2d_grid (cell1_of shear2d_grid)
     (particle (Delete_Ghost shear2d_grid) ! 0) =
     (\<lparr>Vector.x1 = - 1, x2 = 0, x3 = - 2\<rparr>, 1, \<lparr>Vector.x1 = 1 / 2, x2 = 0, x3 = - 2\<rparr>, 1, []) \<and>
   fulimp_forces shear_cfg rest_env shear3d_grid (cell1_of shear3d_grid)
     (particle (Delete_Ghost shear3d_grid) ! 0) =
     (\<lparr>Vector.x1 = - 1, x2 = - 2, x3 = 0\<rparr>, 1, \<lparr>Vector.x1 = 1 / 2, x2 = - 2, x3 = 0\<rparr>, 1, []) \<and>
   fulimp_matrix shear_cfg shear2d_grid 1 1 = (9 / 8, - 3 / 2, 3 / 2, 13 / 8) \<and>
   fulimp_matrix shear_cfg shear3d_grid 1 1 = (9 / 8, - 3 / 2, 3 / 2, 13 / 8) \<and>
   (0::real) \<le> dt shear2d_grid \<and> (0::real) \<le> dt shear3d_grid \<and>
   fulimp_Det shear_cfg shear2d_grid 1 1 = 225 / 64 \<and>
   0 < fulimp_Det shear_cfg shear2d_grid 1 1 \<and>
   v1 (particle (fst (integrate_particle_fulimp shear_cfg rest_env shear2d_grid)) ! 0) = 33 / 50 \<and>
   v2 (particle (fst (integrate_particle_fulimp shear_cfg rest_env shear2d_grid)) ! 0) = 0 \<and>
   v3 (particle (fst (integrate_particle_fulimp shear_cfg rest_env shear2d_grid)) ! 0) = - 41 / 75 \<and>
   fulimp_Det shear_cfg shear3d_grid 1 1 = 225 / 64 \<and>
   0 < fulimp_Det shear_cfg shear3d_grid 1 1 \<and>
   v1 (particle (fst (integrate_particle_fulimp shear_cfg rest_env shear3d_grid)) ! 0) = 33 / 50 \<and>
   v2 (particle (fst (integrate_particle_fulimp shear_cfg rest_env shear3d_grid)) ! 0) = - 41 / 75 \<and>
   v3 (particle (fst (integrate_particle_fulimp shear_cfg rest_env shear3d_grid)) ! 0) = 0 \<and>
   nparticle (fst (integrate_particle_fulimp shear_cfg rest_env shear2d_grid)) = 1 \<and>
   last (snd (integrate_particle_fulimp shear_cfg rest_env shear2d_grid)) = Ath_pout 0 0 1 \<and>
   last (snd (integrate_particle_fulimp shear_cfg rest_env shear3d_grid)) = Ath_pout 0 0 1"
proof -
  have wf2: "grid_wf shear2d_grid" by (simp add: grid_wf_def shear2d_grid_def)
  have wf3: "grid_wf shear3d_grid"
    by (simp add: grid_wf_def shear3d_grid_def shear2d_grid_def)
  have i2: "0 < nparticle (Delete_Ghost shear2d_grid)"
    by (simp add: Delete_Ghost_shear2d_grid) (simp add: shear2d_grid_def)
  have i3: "0 < nparticle (Delete_Ghost shear3d_grid)"
    by (simp add: Delete_Ghost_shear3d_grid) (simp add: shear3d_grid_def shear2d_grid_def)
  have sb: "SHEARING_BOX shear_cfg" by (simp add: shear_cfg_def)
  have n3: "Nx3 shear2d_grid \<le> 1" "1 < Nx3 shear3d_grid"
    by (simp_all add: shear3d_grid_def shear2d_grid_def)
  have fo2: "fulimp_forces shear_cfg rest_env shear2d_grid (cell1_of shear2d_grid)
     (particle (Delete_Ghost shear2d_grid) ! 0) =
     (\<lparr>Vector.x1 = - 1, x2 = 0, x3 = - 2\<rparr>, 1, \<lparr>Vector.x1 = 1 / 2, x2 = 0, x3 = - 2\<rparr>, 1, [])"
    by (simp add: Delete_Ghost_shear2d_grid shear_2d_forces)
  have fo3: "fulimp_forces shear_cfg rest_env shear3d_grid (cell1_of shear3d_grid)
     (particle (Delete_Ghost shear3d_grid) ! 0) =
     (\<lparr>Vector.x1 = - 1, x2 = - 2, x3 = 0\<rparr>, 1, \<lparr>Vector.x1 = 1 / 2, x2 = - 2, x3 = 0\<rparr>, 1, [])"
    by (simp add: Delete_Ghost_shear3d_grid shear_3d_forces)
  have m2: "fulimp_matrix shear_cfg shear2d_grid 1 1 = (9 / 8, - 3 / 2, 3 / 2, 13 / 8)"
    by (simp add: fulimp_matrix_def Let_def SQR_def shear_cfg_def shear2d_grid_def)
  have m3: "fulimp_matrix shear_cfg shear3d_grid 1 1 = (9 / 8, - 3 / 2, 3 / 2, 13 / 8)"
    by (simp add: fulimp_matrix_def Let_def SQR_def shear_cfg_def shear3d_grid_def shear2d_grid_def)
  have F2: "fulimp_total_force shear_cfg shear2d_grid
              \<lparr>Vector.x1 = - 1, x2 = 0, x3 = - 2\<rparr> \<lparr>Vector.x1 = 1 / 2, x2 = 0, x3 = - 2\<rparr> 1
            = \<lparr>Vector.x1 = 7 / 8, x2 = 0, x3 = - 9 / 4\<rparr>"
    by (simp add: fulimp_total_force_def Let_def shear_cfg_def shear2d_grid_def)
  have F3: "fulimp_total_force shear_cfg shear3d_grid
              \<lparr>Vector.x1 = - 1, x2 = - 2, x3 = 0\<rparr> \<lparr>Vector.x1 = 1 / 2, x2 = - 2, x3 = 0\<rparr> 1
            = \<lparr>Vector.x1 = 7 / 8, x2 = - 9 / 4, x3 = 0\<rparr>"
    by (simp add: fulimp_total_force_def Let_def shear_cfg_def shear3d_grid_def shear2d_grid_def)
  have v: "v1 (particle (Delete_Ghost shear2d_grid) ! 0) = 1"
          "v2 (particle (Delete_Ghost shear2d_grid) ! 0) = 0"
          "v3 (particle (Delete_Ghost shear2d_grid) ! 0) = 0"
          "v1 (particle (Delete_Ghost shear3d_grid) ! 0) = 1"
          "v2 (particle (Delete_Ghost shear3d_grid) ! 0) = 0"
          "v3 (particle (Delete_Ghost shear3d_grid) ! 0) = 0"
          "dt shear2d_grid = 1 / 2" "dt shear3d_grid = 1 / 2"
          "nparticle (Delete_Ghost shear2d_grid) = 1" "nparticle (Delete_Ghost shear3d_grid) = 1"
          "my_id shear2d_grid = 0" "my_id shear3d_grid = 0"
    by (simp_all add: Delete_Ghost_shear3d_grid Delete_Ghost_shear2d_grid)
       (simp_all add: shear3d_grid_def shear2d_grid_def)
  have d2: "fulimp_Det shear_cfg shear2d_grid 1 1 = 225 / 64"
    unfolding fulimp_Det_matrix[OF m2] by simp
  have d3: "fulimp_Det shear_cfg shear3d_grid 1 1 = 225 / 64"
    unfolding fulimp_Det_matrix[OF m3] by simp
  have t2: "v1 (particle (fst (integrate_particle_fulimp shear_cfg rest_env shear2d_grid)) ! 0) = 33 / 50 \<and>
            v2 (particle (fst (integrate_particle_fulimp shear_cfg rest_env shear2d_grid)) ! 0) = 0 \<and>
            v3 (particle (fst (integrate_particle_fulimp shear_cfg rest_env shear2d_grid)) ! 0) = - 41 / 75 \<and>
            0 < fulimp_Det shear_cfg shear2d_grid 1 1 \<and>
            nparticle (fst (integrate_particle_fulimp shear_cfg rest_env shear2d_grid)) = 1 \<and>
            last (snd (integrate_particle_fulimp shear_cfg rest_env shear2d_grid)) = Ath_pout 0 0 1"
    using determinant_positive[OF wf2 i2 sb refl refl fo2 refl m2 refl] n3(1)
    unfolding F2 d2 by (simp add: v)
  have t3: "v1 (particle (fst (integrate_particle_fulimp shear_cfg rest_env shear3d_grid)) ! 0) = 33 / 50 \<and>
            v2 (particle (fst (integrate_particle_fulimp shear_cfg rest_env shear3d_grid)) ! 0) = - 41 / 75 \<and>
            v3 (particle (fst (integrate_particle_fulimp shear_cfg rest_env shear3d_grid)) ! 0) = 0 \<and>
            0 < fulimp_Det shear_cfg shear3d_grid 1 1 \<and>
            last (snd (integrate_particle_fulimp shear_cfg rest_env shear3d_grid)) = Ath_pout 0 0 1"
    using determinant_positive[OF wf3 i3 sb refl refl fo3 refl m3 refl] n3(2)
    unfolding F3 d3 by (simp add: v)
  have t: "(0::real) \<le> dt shear2d_grid" "(0::real) \<le> dt shear3d_grid"
    by (simp_all add: v)
  show ?thesis
    using wf2 wf3 i2 i3 sb n3 fo2 fo3 m2 m3 d2 d3 t t2 t3 by blast
qed

text \<open>
  Claim C4 as stated fails under FARGO: in the 2D path the code adds the full Coriolis
  term to the third component, not a quarter of it. For the grain of the 2D grid (forces
  fc = (-1, 0, -2) and fp = (1/2, 0, -2), both stopping frequencies 1) the third
  component of the total force is -9/4, where the claim's formula gives -39/16.
\<close>

theorem fulimp_2d_fargo_counterexample:
  "FARGO fargo_cfg \<and> SHEARING_BOX fargo_cfg \<and> Nx3 shear2d_grid = 1 \<and>
   fulimp_forces fargo_cfg rest_env shear2d_grid (cell1_of shear2d_grid) (particle shear2d_grid ! 0) =
     (\<lparr>Vector.x1 = - 1, x2 = 0, x3 = - 2\<rparr>, 1, \<lparr>Vector.x1 = 1 / 2, x2 = 0, x3 = - 2\<rparr>, 1, []) \<and>
   Vector.x3 (fulimp_total_force fargo_cfg shear2d_grid
                \<lparr>Vector.x1 = - 1, x2 = 0, x3 = - 2\<rparr> \<lparr>Vector.x1 = 1 / 2, x2 = 0, x3 = - 2\<rparr> 1)
     = - 9 / 4 \<and>
   Vector.x3 (claimed_total_force_2d fargo_cfg shear2d_grid
                \<lparr>Vector.x1 = - 1, x2 = 0, x3 = - 2\<rparr> \<lparr>Vector.x1 = 1 / 2, x2 = 0, x3 = - 2\<rparr> 1)
     = - 39 / 16"
  by (simp add: fargo_2d_forces)
     (simp add: fulimp_total_force_def claimed_total_force_2d_def Let_def fargo_cfg_def
        shear2d_grid_def)

text \<open>
  Claim C4, amended. In the 2D shearing-sheet fully implicit path (Nx3 at most 1) the
  predictor Coriolis contributions added to the symmetrised drive are -w fp3 on the first
  component and w fp1 on the third, with w = Omega dt, with and without FARGO: the 2D
  path has no FARGO variant. The velocity update is computed from that drive.
\<close>

theorem fulimp_2d_total_force:
  "SHEARING_BOX cfg \<Longrightarrow> Nx3 pG \<le> 1 \<Longrightarrow>
   fulimp_forces cfg env pG c g = (fc, ts11, fp, ts12, ev) \<Longrightarrow>
   F = \<lparr>Vector.x1 = 1 / 2 * (Vector.x1 fc + (1 + dt pG * ts11) * Vector.x1 fp)
                     - Omega cfg * dt pG * Vector.x3 fp,
        x2 = 1 / 2 * (Vector.x2 fc + (1 + dt pG * ts11) * Vector.x2 fp),
        x3 = 1 / 2 * (Vector.x3 fc + (1 + dt pG * ts11) * Vector.x3 fp)
               + Omega cfg * dt pG * Vector.x1 fp\<rparr> \<Longrightarrow>
   fulimp_total_force cfg pG fc fp ts11 = F \<and>
   fst (fulimp_dv cfg env pG c g) = fulimp_velocity_update cfg pG F ts11 ts12"
  by (simp add: fulimp_dv_def fulimp_total_force_def Let_def)

theorem fulimp_2d_total_force_witness:
  "SHEARING_BOX fargo_cfg \<and> Nx3 shear2d_grid \<le> 1 \<and>
   fulimp_total_force fargo_cfg shear2d_grid
     \<lparr>Vector.x1 = - 1, x2 = 0, x3 = - 2\<rparr> \<lparr>Vector.x1 = 1 / 2, x2 = 0, x3 = - 2\<rparr> 1
     = \<lparr>Vector.x1 = 7 / 8, x2 = 0, x3 = - 9 / 4\<rparr> \<and>
   fst (fulimp_dv fargo_cfg rest_env shear2d_grid (cell1_of shear2d_grid) (particle shear2d_grid ! 0))
     = fulimp_velocity_update fargo_cfg shear2d_grid \<lparr>Vector.x1 = 7 / 8, x2 = 0, x3 = - 9 / 4\<rparr> 1 1"
proof -
  have sb: "SHEARING_BOX fargo_cfg" by (simp add: fargo_cfg_def)
  have n3: "Nx3 shear2d_grid \<le> 1" by (simp add: shear2d_grid_def)
  have F: "\<lparr>Vector.x1 = 7 / 8, x2 = 0, x3 = - 9 / 4\<rparr> =
      \<lparr>Vector.x1 = 1 / 2 * (Vector.x1 \<lparr>Vector.x1 = - 1, x2 = 0, x3 = - 2\<rparr>
                            + (1 + dt shear2d_grid * 1) * Vector.x1 \<lparr>Vector.x1 = 1 / 2, x2 = 0, x3 = - 2\<rparr>)
                     - Omega fargo_cfg * dt shear2d_grid * Vector.x3 \<lparr>Vector.x1 = 1 / 2, x2 = 0, x3 = - 2\<rparr>,
        x2 = 1 / 2 * (Vector.x2 \<lparr>Vector.x1 = - 1, x2 = 0, x3 = - 2\<rparr>
                       + (1 + dt shear2d_grid * 1) * Vector.x2 \<lparr>Vector.x1 = 1 / 2, x2 = 0, x3 = - 2\<rparr>),
        x3 = 1 / 2 * (Vector.x3 \<lparr>Vector.x1 = - 1, x2 = 0, x3 = - 2\<rparr>
                       + (1 + dt shear2d_grid * 1) * Vector.x3 \<lparr>Vector.x1 = 1 / 2, x2 = 0, x3 = - 2\<rparr>)
               + Omega fargo_cfg * dt shear2d_grid * Vector.x1 \<lparr>Vector.x1 = 1 / 2, x2 = 0, x3 = - 2\<rparr>\<rparr>"
    by (simp add: fargo_cfg_def shear2d_grid_def)
  show ?thesis
    using sb n3 fulimp_2d_total_force[OF sb n3 fargo_2d_forces F] by simp
qed

text \<open>
  Claim C5. For every grain in the 3D shearing-sheet fully implicit integrator
  (Nx3 > 1) the velocity update is dv1 = dt (A F1 - B F2)/Det, dv2 = dt (-C F1 + A F2)/Det
  and dv3 = dt F3/D, with D = 1 + dt/2 (s1 + s2 + dt s1 s2), B = w (-2 - (s1 + s2) dt),
  and A = D - w*w/2, C = -B/4 under FARGO or A = D - 2 w*w, C = -B without FARGO,
  Det = A*A - B*C, w = Omega dt. Here F is the symmetrised drive with the predictor's
  Coriolis terms, and s1, s2 are the stopping frequencies that the drag evaluations at
  the current and at the predictor position return.
\<close>

theorem fulimp_3d_velocity_update:
  assumes "grid_wf pG" and "i < nparticle (Delete_Ghost pG)"
    and "SHEARING_BOX cfg" and "1 < Nx3 pG"
    and "g = particle (Delete_Ghost pG) ! i"
    and "g' = particle (fst (integrate_particle_fulimp cfg env pG)) ! i"
    and "fulimp_forces cfg env pG (cell1_of pG) g = (fc, s1, fp, s2, ev)"
    and "w = Omega cfg * dt pG"
    and "F = \<lparr>Vector.x1 = 1 / 2 * (Vector.x1 fc + (1 + dt pG * s1) * Vector.x1 fp) - w * Vector.x2 fp,
               x2 = 1 / 2 * (Vector.x2 fc + (1 + dt pG * s1) * Vector.x2 fp)
                      + (if FARGO cfg then 1 / 4 * w * Vector.x1 fp else w * Vector.x1 fp),
               x3 = 1 / 2 * (Vector.x3 fc + (1 + dt pG * s1) * Vector.x3 fp)\<rparr>"
    and "D = 1 + 1 / 2 * dt pG * (s1 + s2 + dt pG * s1 * s2)"
    and "B = w * (- 2 - (s1 + s2) * dt pG)"
    and "A = (if FARGO cfg then D - 1 / 2 * w\<^sup>2 else D - 2 * w\<^sup>2)"
    and "C = (if FARGO cfg then - (1 / 4) * B else - B)"
    and "Det = A\<^sup>2 - B * C"
  shows "v1 g' = v1 g + dt pG * (A * Vector.x1 F - B * Vector.x2 F) / Det \<and>
         v2 g' = v2 g + dt pG * (- C * Vector.x1 F + A * Vector.x2 F) / Det \<and>
         v3 g' = v3 g + dt pG * Vector.x3 F / D \<and>
         s1 = fst (snd (Get_Drag env pG (property g) (Grain.x1 g) (Grain.x2 g) (Grain.x3 g)
                          (v1 g) (v2 g) (v3 g) (cell1_of pG))) \<and>
         s2 = fst (snd (Get_Drag env pG (property g) (fst (predictor_full cfg pG g))
                          (fst (snd (predictor_full cfg pG g))) (snd (snd (predictor_full cfg pG g)))
                          (v1 g) (v2 g) (v3 g) (cell1_of pG)))"
proof -
  have F: "fulimp_total_force cfg pG fc fp s1 = F"
    using assms(3,4,8,9) by (simp add: fulimp_total_force_3d)
  have dv: "fst (fulimp_dv cfg env pG (cell1_of pG) g) =
              (dt pG * (A * Vector.x1 F - B * Vector.x2 F) / Det,
               dt pG * (- C * Vector.x1 F + A * Vector.x2 F) / Det,
               dt pG * Vector.x3 F / D)"
    unfolding fulimp_dv_fst[OF assms(7)] F
    by (rule fulimp_velocity_update_3d[OF assms(3,4,8,10,11,12,13,14)])
  have g': "g' = fst (update_particle cfg env pG (cell1_of pG) g (fst (fulimp_dv cfg env pG (cell1_of pG) g)))"
    unfolding assms(5,6) by (rule integrate_nth(3)[OF assms(1,2)])
  show ?thesis
    unfolding g' dv using fulimp_forces_ts[OF assms(7)] by (simp add: update_particle_v)
qed

theorem fulimp_3d_velocity_update_witness:
  "grid_wf shear3d_grid \<and> 0 < nparticle (Delete_Ghost shear3d_grid) \<and>
   SHEARING_BOX shear_cfg \<and> 1 < Nx3 shear3d_grid \<and>
   fulimp_forces shear_cfg rest_env shear3d_grid (cell1_of shear3d_grid)
     (particle (Delete_Ghost shear3d_grid) ! 0) =
     (\<lparr>Vector.x1 = - 1, x2 = - 2, x3 = 0\<rparr>, 1, \<lparr>Vector.x1 = 1 / 2, x2 = - 2, x3 = 0\<rparr>, 1, []) \<and>
   v1 (particle (fst (integrate_particle_fulimp shear_cfg rest_env shear3d_grid)) ! 0) = 33 / 50 \<and>
   v2 (particle (fst (integrate_particle_fulimp shear_cfg rest_env shear3d_grid)) ! 0) = - 41 / 75 \<and>
   v3 (particle (fst (integrate_particle_fulimp shear_cfg rest_env shear3d_grid)) ! 0) = 0"
proof -
  have wf: "grid_wf shear3d_grid"
    by (simp add: grid_wf_def shear3d_grid_def shear2d_grid_def)
  have i: "0 < nparticle (Delete_Ghost shear3d_grid)"
    by (simp add: Delete_Ghost_shear3d_grid) (simp add: shear3d_grid_def shear2d_grid_def)
  have sb: "SHEARING_BOX shear_cfg" by (simp add: shear_cfg_def)
  have n3: "1 < Nx3 shear3d_grid" by (simp add: shear3d_grid_def)
  have fo: "fulimp_forces shear_cfg rest_env shear3d_grid (cell1_of shear3d_grid)
     (particle (Delete_Ghost shear3d_grid) ! 0) =
     (\<lparr>Vector.x1 = - 1, x2 = - 2, x3 = 0\<rparr>, 1, \<lparr>Vector.x1 = 1 / 2, x2 = - 2, x3 = 0\<rparr>, 1, [])"
    by (simp add: Delete_Ghost_shear3d_grid shear_3d_forces)
  have v: "v1 (particle (Delete_Ghost shear3d_grid) ! 0) = 1"
          "v2 (particle (Delete_Ghost shear3d_grid) ! 0) = 0"
          "v3 (particle (Delete_Ghost shear3d_grid) ! 0) = 0"
          "dt shear3d_grid = 1 / 2" "Omega shear_cfg = 1" "\<not> FARGO shear_cfg"
    by (simp_all add: Delete_Ghost_shear3d_grid)
       (simp_all add: shear3d_grid_def shear2d_grid_def shear_cfg_def)
  show ?thesis
    using wf i sb n3 fo
      fulimp_3d_velocity_update[OF wf i sb n3 refl refl fo refl refl refl refl refl refl refl]
    by (simp add: v power2_eq_square)
qed

lemma semimp_dv_no_shear:
  assumes "\<not> SHEARING_BOX cfg"
    and "predictor_half cfg pG g = (xa, xb, xc)"
    and "getvalues env (getweight env xa xb xc c) = (0, rho, u1, u2, u3, cs)"
    and "gasvshift env xa xb xc (u1, u2, u3) = (w1, w2, w3)"
    and "get_ts env (property g) rho cs
           (sqrt (SQR (v1 g - w1) + SQR (v2 g - w2) + SQR (v3 g - w3))) = ts"
  shows "fst (semimp_dv cfg env pG c g) =
           (dt pG * 2 * (1 / (dt pG * (1 / ts) + 2)) * (- (1 / ts) * (v1 g - w1)),
            dt pG * 2 * (1 / (dt pG * (1 / ts) + 2)) * (- (1 / ts) * (v2 g - w2)),
            dt pG * 2 * (1 / (dt pG * (1 / ts) + 2)) * (- (1 / ts) * (v3 g - w3)))"
  using assms by (simp add: semimp_dv_def Get_Drag_def Get_Force_def Let_def)

lemma drag_factor_aux:
  fixes q y :: real
  assumes "0 < q"
  shows "y - 2 * q / (q + 2) * y = (2 - q) / (2 + q) * y"
proof -
  have nz: "q + 2 \<noteq> 0" "2 + q \<noteq> 0" using assms by simp_all
  show ?thesis using nz by (simp add: field_simps)
qed

lemma drag_factor:
  fixes x w :: real
  assumes "0 < ts" "0 < h"
  shows "x + h * 2 * (1 / (h * (1 / ts) + 2)) * (- (1 / ts) * (x - w)) - w
           = (2 - h / ts) / (2 + h / ts) * (x - w)"
proof -
  define q where "q = h / ts"
  have q: "0 < q" using assms by (simp add: q_def)
  have "x + h * 2 * (1 / (h * (1 / ts) + 2)) * (- (1 / ts) * (x - w)) - w
          = (x - w) - 2 * q / (q + 2) * (x - w)"
    by (simp add: q_def ac_simps)
  also have "\<dots> = (2 - q) / (2 + q) * (x - w)"
    by (rule drag_factor_aux[OF q])
  finally show ?thesis unfolding q_def .
qed

lemma drag_factor_bound:
  fixes a :: real
  assumes "0 \<le> a"
  shows "\<bar>(2 - a) / (2 + a)\<bar> \<le> 1"
proof -
  have p: "0 < 2 + a" using assms by simp
  have "\<bar>(2 - a) / (2 + a)\<bar> = \<bar>2 - a\<bar> / (2 + a)"
    using p by simp
  also have "\<dots> \<le> 1"
    using p assms by simp
  finally show ?thesis .
qed

lemma contraction:
  fixes k y :: real
  assumes "\<bar>k\<bar> \<le> 1"
  shows "\<bar>k * y\<bar> \<le> \<bar>y\<bar>"
proof -
  have "\<bar>k * y\<bar> = \<bar>k\<bar> * \<bar>y\<bar>" by (simp add: abs_mult)
  also have "\<dots> \<le> 1 * \<bar>y\<bar>" by (rule mult_right_mono[OF assms]) simp
  finally show ?thesis by simp
qed

section \<open>The semi-implicit drag update\<close>

text \<open>
  Claim C6. Without a shearing sheet (so with no force but drag), for every grain whose
  gas velocity at the midpoint position, after the shift correction, is (w1, w2, w3) and
  whose stopping time there is ts, one semi-implicit step gives, for each component,
  v_new - w = ((2 - a)/(2 + a)) (v - w) with a = dt/ts. As the factor is at most 1 in
  absolute value, the update is stable in drag for every dt > 0 and every ts > 0:
  the distance of each velocity component to the gas velocity does not grow.
\<close>

theorem semimp_drag_unconditionally_stable:
  assumes "grid_wf pG" and "i < nparticle (Delete_Ghost pG)"
    and "\<not> SHEARING_BOX cfg"
    and "g = particle (Delete_Ghost pG) ! i"
    and "g' = particle (fst (integrate_particle_semimp cfg env pG)) ! i"
    and "predictor_half cfg pG g = (xa, xb, xc)"
    and "getvalues env (getweight env xa xb xc (cell1_of pG)) = (0, rho, u1, u2, u3, cs)"
    and "gasvshift env xa xb xc (u1, u2, u3) = (w1, w2, w3)"
    and "get_ts env (property g) rho cs
           (sqrt (SQR (v1 g - w1) + SQR (v2 g - w2) + SQR (v3 g - w3))) = ts"
    and "0 < ts" and "0 < dt pG" and "a = dt pG / ts"
  shows "v1 g' - w1 = (2 - a) / (2 + a) * (v1 g - w1) \<and>
         v2 g' - w2 = (2 - a) / (2 + a) * (v2 g - w2) \<and>
         v3 g' - w3 = (2 - a) / (2 + a) * (v3 g - w3) \<and>
         \<bar>(2 - a) / (2 + a)\<bar> \<le> 1 \<and>
         \<bar>v1 g' - w1\<bar> \<le> \<bar>v1 g - w1\<bar> \<and>
         \<bar>v2 g' - w2\<bar> \<le> \<bar>v2 g - w2\<bar> \<and>
         \<bar>v3 g' - w3\<bar> \<le> \<bar>v3 g - w3\<bar>"
proof -
  have g': "g' = fst (update_particle cfg env pG (cell1_of pG) g
                        (fst (semimp_dv cfg env pG (cell1_of pG) g)))"
    unfolding assms(4,5) by (rule integrate_nth(2)[OF assms(1,2)])
  note dv = semimp_dv_no_shear[OF assms(3,6,7,8,9)]
  have e1: "v1 g' - w1 = (2 - a) / (2 + a) * (v1 g - w1)"
    unfolding g' dv assms(12) by (simp only: update_particle_v drag_factor[OF assms(10,11)])
  have e2: "v2 g' - w2 = (2 - a) / (2 + a) * (v2 g - w2)"
    unfolding g' dv assms(12) by (simp only: update_particle_v drag_factor[OF assms(10,11)])
  have e3: "v3 g' - w3 = (2 - a) / (2 + a) * (v3 g - w3)"
    unfolding g' dv assms(12) by (simp only: update_particle_v drag_factor[OF assms(10,11)])
  have "0 \<le> a" using assms(10,11,12) by simp
  then have k: "\<bar>(2 - a) / (2 + a)\<bar> \<le> 1" by (rule drag_factor_bound)
  show ?thesis
    using e1 e2 e3 k contraction[OF k] by simp
qed

lemma Delete_Ghost_shear2d_nth:
  "particle (Delete_Ghost shear2d_grid) ! 0 =
     \<lparr>Grain.x1 = 0, x2 = 0, x3 = 0, v1 = 1, v2 = 0, v3 = 0, property = 0, pos = 1, shift = 0\<rparr>"
  by (simp add: Delete_Ghost_shear2d_grid) (simp add: shear2d_grid_def)

theorem semimp_drag_unconditionally_stable_witness:
  "grid_wf shear2d_grid \<and> 0 < nparticle (Delete_Ghost shear2d_grid) \<and>
   \<not> SHEARING_BOX plain_cfg \<and>
   predictor_half plain_cfg shear2d_grid (particle (Delete_Ghost shear2d_grid) ! 0) = (1 / 4, 0, 0) \<and>
   (0::real) < 1 \<and> 0 < dt shear2d_grid \<and>
   v1 (particle (fst (integrate_particle_semimp plain_cfg rest_env shear2d_grid)) ! 0) = 3 / 5 \<and>
   \<bar>v1 (particle (fst (integrate_particle_semimp plain_cfg rest_env shear2d_grid)) ! 0)\<bar> \<le> 1"
proof -
  have wf: "grid_wf shear2d_grid" by (simp add: grid_wf_def shear2d_grid_def)
  have i: "0 < nparticle (Delete_Ghost shear2d_grid)"
    by (simp add: Delete_Ghost_shear2d_grid) (simp add: shear2d_grid_def)
  have ns: "\<not> SHEARING_BOX plain_cfg" by (simp add: plain_cfg_def)
  have ph: "predictor_half plain_cfg shear2d_grid (particle (Delete_Ghost shear2d_grid) ! 0) = (1 / 4, 0, 0)"
    unfolding Delete_Ghost_shear2d_nth
    by (simp add: predictor_half_def plain_cfg_def shear2d_grid_def Let_def)
  have gv: "getvalues rest_env (getweight rest_env (1 / 4) 0 0 (cell1_of shear2d_grid)) = (0, 1, 0, 0, 0, 1)"
    by (simp add: rest_env_def)
  have gs: "gasvshift rest_env (1 / 4) 0 0 (0, 0, 0) = (0, 0, 0)"
    by (simp add: rest_env_def)
  have ts: "get_ts rest_env (property (particle (Delete_Ghost shear2d_grid) ! 0)) 1 1
              (sqrt (SQR (v1 (particle (Delete_Ghost shear2d_grid) ! 0) - 0)
                   + SQR (v2 (particle (Delete_Ghost shear2d_grid) ! 0) - 0)
                   + SQR (v3 (particle (Delete_Ghost shear2d_grid) ! 0) - 0))) = 1"
    by (simp add: rest_env_def)
  have t: "0 < dt shear2d_grid" by (simp add: shear2d_grid_def)
  have v: "v1 (particle (fst (integrate_particle_semimp plain_cfg rest_env shear2d_grid)) ! 0) = 3 / 5"
    using semimp_drag_unconditionally_stable[OF wf i ns refl refl ph gv gs ts zero_less_one t refl]
    by (simp add: Delete_Ghost_shear2d_nth) (simp add: shear2d_grid_def)
  show ?thesis
    using wf i ns ph t v by simp
qed

lemma deposits_append: "deposits (a @ b) = deposits a @ deposits b"
  by (induction a rule: deposits.induct) simp_all

lemma shear_deposits_append: "shear_deposits (a @ b) = shear_deposits a @ shear_deposits b"
  by (induction a rule: shear_deposits.induct) simp_all

lemma deposits_concat: "deposits (concat xss) = concat (map deposits xss)"
  by (induction xss) (simp_all add: deposits_append)

lemma shear_deposits_concat: "shear_deposits (concat xss) = concat (map shear_deposits xss)"
  by (induction xss) (simp_all add: shear_deposits_append)

lemma Get_Drag_no_deposit:
  "deposits (snd (snd (Get_Drag env pG ty px1 px2 px3 pv1 pv2 pv3 c))) = []"
  "shear_deposits (snd (snd (Get_Drag env pG ty px1 px2 px3 pv1 pv2 pv3 c))) = []"
  by (cases "getvalues env (getweight env px1 px2 px3 c)",
      simp add: Get_Drag_def Let_def split: prod.splits)+

lemma exp_dv_no_deposit:
  "deposits (snd (exp_dv cfg env pG c g)) = []"
  "shear_deposits (snd (exp_dv cfg env pG c g)) = []"
proof -
  obtain xa xb xc where p: "predictor_half cfg pG g = (xa, xb, xc)"
    by (cases "predictor_half cfg pG g") auto
  obtain fd s ev where d: "Get_Drag env pG (property g) (Grain.x1 g) (Grain.x2 g) (Grain.x3 g)
             (v1 g) (v2 g) (v3 g) c = (fd, s, ev)"
    by (cases "Get_Drag env pG (property g) (Grain.x1 g) (Grain.x2 g) (Grain.x3 g)
             (v1 g) (v2 g) (v3 g) c") auto
  have e: "ev = snd (snd (Get_Drag env pG (property g) (Grain.x1 g) (Grain.x2 g) (Grain.x3 g)
             (v1 g) (v2 g) (v3 g) c))"
    by (simp add: d)
  have "\<exists>q1 q2 q3. snd (exp_dv cfg env pG c g) =
          ev @ snd (snd (Get_Drag env pG (property g) xa xb xc q1 q2 q3 c))"
    by (simp add: exp_dv_def p d Let_def split: prod.splits) (metis snd_conv)
  then obtain q1 q2 q3 where
    s: "snd (exp_dv cfg env pG c g) = ev @ snd (snd (Get_Drag env pG (property g) xa xb xc q1 q2 q3 c))"
    by blast
  show "deposits (snd (exp_dv cfg env pG c g)) = []"
    unfolding s e by (simp add: deposits_append Get_Drag_no_deposit)
  show "shear_deposits (snd (exp_dv cfg env pG c g)) = []"
    unfolding s e by (simp add: shear_deposits_append Get_Drag_no_deposit)
qed

lemma semimp_dv_no_deposit:
  "deposits (snd (semimp_dv cfg env pG c g)) = []"
  "shear_deposits (snd (semimp_dv cfg env pG c g)) = []"
proof -
  obtain xa xb xc where p: "predictor_half cfg pG g = (xa, xb, xc)"
    by (cases "predictor_half cfg pG g") auto
  have s: "snd (semimp_dv cfg env pG c g) =
             snd (snd (Get_Drag env pG (property g) xa xb xc (v1 g) (v2 g) (v3 g) c))"
    by (simp add: semimp_dv_def p Let_def split: prod.splits)
  show "deposits (snd (semimp_dv cfg env pG c g)) = []"
    unfolding s by (rule Get_Drag_no_deposit)
  show "shear_deposits (snd (semimp_dv cfg env pG c g)) = []"
    unfolding s by (rule Get_Drag_no_deposit)
qed

lemma fulimp_dv_no_deposit:
  "deposits (snd (fulimp_dv cfg env pG c g)) = []"
  "shear_deposits (snd (fulimp_dv cfg env pG c g)) = []"
proof -
  obtain xa xb xc where p: "predictor_full cfg pG g = (xa, xb, xc)"
    by (cases "predictor_full cfg pG g") auto
  have s: "snd (fulimp_dv cfg env pG c g) =
             snd (snd (Get_Drag env pG (property g) (Grain.x1 g) (Grain.x2 g) (Grain.x3 g)
                         (v1 g) (v2 g) (v3 g) c)) @
             snd (snd (Get_Drag env pG (property g) xa xb xc (v1 g) (v2 g) (v3 g) c))"
    by (simp add: fulimp_dv_def fulimp_forces_def p Let_def split: prod.splits)
  show "deposits (snd (fulimp_dv cfg env pG c g)) = []"
    unfolding s by (simp add: deposits_append Get_Drag_no_deposit)
  show "shear_deposits (snd (fulimp_dv cfg env pG c g)) = []"
    unfolding s by (simp add: shear_deposits_append Get_Drag_no_deposit)
qed

lemma take_as_map_nth: "n \<le> length xs \<Longrightarrow> take n xs = map ((!) xs) [0..<n]"
  by (rule nth_equalityI) simp_all

lemma run_feedback_deposited:
  assumes fb: "FEEDBACK cfg" and wf: "grid_wf pG"
    and n: "nparticle (fst run) = nparticle (Delete_Ghost pG)"
    and nth: "\<And>i. i < nparticle (Delete_Ghost pG) \<Longrightarrow>
               particle (fst run) ! i =
                 fst (update_particle cfg env pG (cell1_of pG) (particle (Delete_Ghost pG) ! i)
                        (fst (dv pG (cell1_of pG) (particle (Delete_Ghost pG) ! i))))"
    and ev: "snd run =
               (if FEEDBACK cfg then [Feedback_clear] else []) @
               concat (map (\<lambda>g. snd (dv pG (cell1_of pG) g) @
                                 snd (update_particle cfg env pG (cell1_of pG) g
                                        (fst (dv pG (cell1_of pG) g))))
                         (take (nparticle (Delete_Ghost pG)) (particle (Delete_Ghost pG)))) @
               [Ath_pout 0 (my_id pG) (nparticle (Delete_Ghost pG))]"
    and nd: "\<And>g. deposits (snd (dv pG (cell1_of pG) g)) = []"
    and ns: "\<And>g. shear_deposits (snd (dv pG (cell1_of pG) g)) = []"
  shows "feedback_deposited cfg env pG run"
proof -
  let ?D = "Delete_Ghost pG"
  let ?n = "nparticle ?D"
  let ?u = "\<lambda>g. update_particle cfg env pG (cell1_of pG) g (fst (dv pG (cell1_of pG) g))"
  let ?pair = "\<lambda>i. (midpoint_stencil env pG (particle ?D ! i) (particle (fst run) ! i),
                     drag_impulse cfg pG (particle ?D ! i) (particle (fst run) ! i))"
  have tk: "take ?n (particle ?D) = map ((!) (particle ?D)) [0..<?n]"
    by (rule take_as_map_nth[OF Delete_Ghost_wf[OF wf]])
  have pair: "(midpoint_stencil env pG (particle ?D ! i) (fst (?u (particle ?D ! i))),
               drag_impulse cfg pG (particle ?D ! i) (fst (?u (particle ?D ! i)))) = ?pair i"
    if "i < ?n" for i
    using nth[OF that] by simp
  have d: "deposits (snd run) = map ?pair [0..<?n]"
  proof -
    have "deposits (snd run) =
            concat (map (\<lambda>g. [(midpoint_stencil env pG g (fst (?u g)),
                                 drag_impulse cfg pG g (fst (?u g)))])
                      (take ?n (particle ?D)))"
      unfolding ev using fb
      by (simp add: deposits_append deposits_concat comp_def nd update_particle_deposits)
    also have "\<dots> = map (\<lambda>i. (midpoint_stencil env pG (particle ?D ! i) (fst (?u (particle ?D ! i))),
                                 drag_impulse cfg pG (particle ?D ! i) (fst (?u (particle ?D ! i)))))
                         [0..<?n]"
      unfolding tk by (simp add: comp_def)
    also have "\<dots> = map ?pair [0..<?n]"
      by (rule map_cong[OF refl]) (simp add: pair)
    finally show ?thesis .
  qed
  have s: "shear_deposits (snd run) =
             (if SHEARING_BOX cfg \<and> \<not> FARGO cfg \<and> Nx3 pG > 1 then map ?pair [0..<?n] else [])"
  proof (cases "SHEARING_BOX cfg \<and> \<not> FARGO cfg \<and> Nx3 pG > 1")
    case True
    have "shear_deposits (snd run) =
            concat (map (\<lambda>g. [(midpoint_stencil env pG g (fst (?u g)),
                                 drag_impulse cfg pG g (fst (?u g)))])
                      (take ?n (particle ?D)))"
      unfolding ev using fb True
      by (simp add: shear_deposits_append shear_deposits_concat comp_def ns
            update_particle_shear_deposits)
    also have "\<dots> = map (\<lambda>i. (midpoint_stencil env pG (particle ?D ! i) (fst (?u (particle ?D ! i))),
                                 drag_impulse cfg pG (particle ?D ! i) (fst (?u (particle ?D ! i)))))
                         [0..<?n]"
      unfolding tk by (simp add: comp_def)
    also have "\<dots> = map ?pair [0..<?n]"
      by (rule map_cong[OF refl]) (simp add: pair)
    finally show ?thesis using True by simp
  next
    case False
    have "shear_deposits (snd run) = []"
      unfolding ev using fb False
      by (auto simp add: shear_deposits_append shear_deposits_concat comp_def ns
            update_particle_shear_deposits)
    then show ?thesis using False by auto
  qed
  have t: "map snd (map ?pair [0..<?n]) =
             map (\<lambda>i. drag_impulse cfg pG (particle ?D ! i) (particle (fst run) ! i)) [0..<?n]"
    by (simp add: comp_def)
  show ?thesis
    unfolding feedback_deposited_def n d t using s by simp
qed

lemma integrate_events:
  assumes "grid_wf pG"
  shows "snd (integrate_particle_exp cfg env pG) =
           (if FEEDBACK cfg then [Feedback_clear] else []) @
           concat (map (\<lambda>g. snd (exp_dv cfg env pG (cell1_of pG) g) @
                             snd (update_particle cfg env pG (cell1_of pG) g
                                    (fst (exp_dv cfg env pG (cell1_of pG) g))))
                     (take (nparticle (Delete_Ghost pG)) (particle (Delete_Ghost pG)))) @
           [Ath_pout 0 (my_id pG) (nparticle (Delete_Ghost pG))]"
    and "snd (integrate_particle_semimp cfg env pG) =
           (if FEEDBACK cfg then [Feedback_clear] else []) @
           concat (map (\<lambda>g. snd (semimp_dv cfg env pG (cell1_of pG) g) @
                             snd (update_particle cfg env pG (cell1_of pG) g
                                    (fst (semimp_dv cfg env pG (cell1_of pG) g))))
                     (take (nparticle (Delete_Ghost pG)) (particle (Delete_Ghost pG)))) @
           [Ath_pout 0 (my_id pG) (nparticle (Delete_Ghost pG))]"
    and "snd (integrate_particle_fulimp cfg env pG) =
           (if FEEDBACK cfg then [Feedback_clear] else []) @
           concat (map (\<lambda>g. snd (fulimp_dv cfg env pG (cell1_of pG) g) @
                             snd (update_particle cfg env pG (cell1_of pG) g
                                    (fst (fulimp_dv cfg env pG (cell1_of pG) g))))
                     (take (nparticle (Delete_Ghost pG)) (particle (Delete_Ghost pG)))) @
           [Ath_pout 0 (my_id pG) (nparticle (Delete_Ghost pG))]"
  using integrate_with_events[of "exp_step cfg env", OF same_setup_exp_step assms]
        integrate_with_events[of "semimp_step cfg env", OF same_setup_semimp_step assms]
        integrate_with_events[of "fulimp_step cfg env", OF same_setup_fulimp_step assms]
  by (simp_all add: integrate_particle_exp_def integrate_particle_semimp_def
        integrate_particle_fulimp_def step_snd)

section \<open>Feedback: what the corrector deposits\<close>

text \<open>
  Claim C7. With feedback enabled, the vector that \<^verbatim>\<open>feedback_corrector\<close> hands to
  \<^verbatim>\<open>distrFB\<close> for the stencil at the midpoint position is m (dv - dt f) in each
  component, with m the mass of the grain's species, dv the velocity update of the
  integrator and f the force other than drag at the midpoint of the old and the new
  state. Over a run of any of the three integrators there is one such deposit per grain,
  so the sum of the deposited vectors is the sum over the grains of m (dv - dt f).
  How \<^verbatim>\<open>distrFB\<close> spreads a vector over the cells of the stencil is the collaborator's
  part; \<^verbatim>\<open>distrFB_shear\<close> gets the same vectors in the 3D shearing sheet without FARGO.
\<close>

theorem feedback_corrector_deposits_drag_impulse:
  "FEEDBACK cfg \<Longrightarrow> grid_wf pG \<Longrightarrow>
   deposits (feedback_corrector cfg env pG gri grf c d1 d2 d3) =
     [(getweight env (0.5 * (Grain.x1 gri + Grain.x1 grf)) (0.5 * (Grain.x2 gri + Grain.x2 grf))
         (0.5 * (Grain.x3 gri + Grain.x3 grf)) c,
       \<lparr>Vector.x1 = m (grproperty pG (property gri)) *
            (d1 - dt pG * Vector.x1 (Get_Force cfg pG
               (0.5 * (Grain.x1 gri + Grain.x1 grf)) (0.5 * (Grain.x2 gri + Grain.x2 grf))
               (0.5 * (Grain.x3 gri + Grain.x3 grf))
               (0.5 * (v1 gri + v1 grf)) (0.5 * (v2 gri + v2 grf)) (0.5 * (v3 gri + v3 grf)))),
        x2 = m (grproperty pG (property gri)) *
            (d2 - dt pG * Vector.x2 (Get_Force cfg pG
               (0.5 * (Grain.x1 gri + Grain.x1 grf)) (0.5 * (Grain.x2 gri + Grain.x2 grf))
               (0.5 * (Grain.x3 gri + Grain.x3 grf))
               (0.5 * (v1 gri + v1 grf)) (0.5 * (v2 gri + v2 grf)) (0.5 * (v3 gri + v3 grf)))),
        x3 = m (grproperty pG (property gri)) *
            (d3 - dt pG * Vector.x3 (Get_Force cfg pG
               (0.5 * (Grain.x1 gri + Grain.x1 grf)) (0.5 * (Grain.x2 gri + Grain.x2 grf))
               (0.5 * (Grain.x3 gri + Grain.x3 grf))
               (0.5 * (v1 gri + v1 grf)) (0.5 * (v2 gri + v2 grf)) (0.5 * (v3 gri + v3 grf))))\<rparr>)] \<and>
   feedback_deposited cfg env pG (integrate_particle_exp cfg env pG) \<and>
   feedback_deposited cfg env pG (integrate_particle_semimp cfg env pG) \<and>
   feedback_deposited cfg env pG (integrate_particle_fulimp cfg env pG)"
proof -
  assume fb: "FEEDBACK cfg" and wf: "grid_wf pG"
  have e: "feedback_deposited cfg env pG (integrate_particle_exp cfg env pG)"
    by (rule run_feedback_deposited[where dv = "exp_dv cfg env", OF fb wf integrate_nparticle(1)
          integrate_nth(1)[OF wf] integrate_events(1)[OF wf] exp_dv_no_deposit])
  have s: "feedback_deposited cfg env pG (integrate_particle_semimp cfg env pG)"
    by (rule run_feedback_deposited[where dv = "semimp_dv cfg env", OF fb wf integrate_nparticle(2)
          integrate_nth(2)[OF wf] integrate_events(2)[OF wf] semimp_dv_no_deposit])
  have f: "feedback_deposited cfg env pG (integrate_particle_fulimp cfg env pG)"
    by (rule run_feedback_deposited[where dv = "fulimp_dv cfg env", OF fb wf integrate_nparticle(3)
          integrate_nth(3)[OF wf] integrate_events(3)[OF wf] fulimp_dv_no_deposit])
  show ?thesis
    using e s f by (simp add: feedback_corrector_def Let_def)
qed

theorem feedback_corrector_deposits_drag_impulse_witness:
  "FEEDBACK feedback_cfg \<and> grid_wf shear3d_grid \<and>
   feedback_deposited feedback_cfg rest_env shear3d_grid
     (integrate_particle_fulimp feedback_cfg rest_env shear3d_grid) \<and>
   length (deposits (snd (integrate_particle_fulimp feedback_cfg rest_env shear3d_grid))) = 1 \<and>
   shear_deposits (snd (integrate_particle_fulimp feedback_cfg rest_env shear3d_grid))
     = deposits (snd (integrate_particle_fulimp feedback_cfg rest_env shear3d_grid))"
proof -
  have fb: "FEEDBACK feedback_cfg" by (simp add: feedback_cfg_def)
  have wf: "grid_wf shear3d_grid"
    by (simp add: grid_wf_def shear3d_grid_def shear2d_grid_def)
  have n: "nparticle (fst (integrate_particle_fulimp feedback_cfg rest_env shear3d_grid)) = 1"
    by (simp add: integrate_nparticle Delete_Ghost_shear3d_grid)
       (simp add: shear3d_grid_def shear2d_grid_def)
  have c: "SHEARING_BOX feedback_cfg \<and> \<not> FARGO feedback_cfg \<and> Nx3 shear3d_grid > 1"
    by (simp add: feedback_cfg_def shear_cfg_def shear3d_grid_def)
  have d: "feedback_deposited feedback_cfg rest_env shear3d_grid
             (integrate_particle_fulimp feedback_cfg rest_env shear3d_grid)"
    using feedback_corrector_deposits_drag_impulse[OF fb wf, of rest_env] by blast
  show ?thesis
    using fb wf d d[unfolded feedback_deposited_def] n c by simp
qed

section \<open>Drag outside the grid\<close>










end
